theory Spec2Isabelle
  imports Main "HOL-Library.AList" "HOL-Library.Sublist" "HOL-Library.List_Lexorder" "HOL-Library.Char_ord"
begin

section \<open>Go strings\<close>

text \<open>
  A Go string is a sequence of bytes; it is modelled as a \<^typ>\<open>string\<close> (a list of
  8-bit characters). The functions of package \<open>strings\<close> that the context manager calls
  are written out on that representation.
\<close>

definition nl :: char where
  "nl = CHR 0x0A"

definition bslash :: char where
  "bslash = CHR 0x5C"

definition HasPrefix :: "string \<Rightarrow> string \<Rightarrow> bool" where
  "HasPrefix s p = prefix p s"

definition HasSuffix :: "string \<Rightarrow> string \<Rightarrow> bool" where
  "HasSuffix s p = suffix p s"


fun Contains :: "string \<Rightarrow> string \<Rightarrow> bool" where
  "Contains [] sub = (sub = [])"
| "Contains (c # cs) sub = (prefix sub (c # cs) \<or> Contains cs sub)"

text \<open>
  \<open>strings.Split(s, "\n")\<close>: the pieces between the newlines; always at least one piece.
\<close>

fun Split_nl :: "string \<Rightarrow> string list" where
  "Split_nl [] = [[]]"
| "Split_nl (c # cs) =
     (if c = nl then [] # Split_nl cs
      else (case Split_nl cs of [] \<Rightarrow> [[c]] | l # ls \<Rightarrow> (c # l) # ls))"

text \<open>\<open>strings.Join(lines, "\n")\<close>.\<close>

fun Join_nl :: "string list \<Rightarrow> string" where
  "Join_nl [] = []"
| "Join_nl [l] = l"
| "Join_nl (l # ls) = l @ [nl] @ Join_nl ls"

text \<open>
  \<open>strings.TrimSpace\<close> removes the leading and trailing white space runes, as Unicode
  defines them. On the bytes of the string these are the six ASCII characters and
  the UTF-8 encodings of U+0085, U+00A0, U+1680, U+2000 to U+200A, U+2028, U+2029, U+202F,
  U+205F and U+3000.
\<close>

definition space_runes :: "string list" where
  "space_runes =
     [[CHR 0x09], [CHR 0x0A], [CHR 0x0B], [CHR 0x0C], [CHR 0x0D], [CHR 0x20],
      [CHR 0xC2, CHR 0x85], [CHR 0xC2, CHR 0xA0], [CHR 0xE1, CHR 0x9A, CHR 0x80],
      [CHR 0xE2, CHR 0x80, CHR 0x80], [CHR 0xE2, CHR 0x80, CHR 0x81],
      [CHR 0xE2, CHR 0x80, CHR 0x82], [CHR 0xE2, CHR 0x80, CHR 0x83],
      [CHR 0xE2, CHR 0x80, CHR 0x84], [CHR 0xE2, CHR 0x80, CHR 0x85],
      [CHR 0xE2, CHR 0x80, CHR 0x86], [CHR 0xE2, CHR 0x80, CHR 0x87],
      [CHR 0xE2, CHR 0x80, CHR 0x88], [CHR 0xE2, CHR 0x80, CHR 0x89],
      [CHR 0xE2, CHR 0x80, CHR 0x8A], [CHR 0xE2, CHR 0x80, CHR 0xA8],
      [CHR 0xE2, CHR 0x80, CHR 0xA9], [CHR 0xE2, CHR 0x80, CHR 0xAF],
      [CHR 0xE2, CHR 0x81, CHR 0x9F], [CHR 0xE3, CHR 0x80, CHR 0x80]]"

definition leading_space :: "string \<Rightarrow> nat" where
  "leading_space s = (case find (\<lambda>w. prefix w s) space_runes of None \<Rightarrow> 0 | Some w \<Rightarrow> length w)"

definition trailing_space :: "string \<Rightarrow> nat" where
  "trailing_space s = (case find (\<lambda>w. suffix w s) space_runes of None \<Rightarrow> 0 | Some w \<Rightarrow> length w)"

function TrimLeft_space :: "string \<Rightarrow> string" where
  "TrimLeft_space s =
     (if leading_space s = 0 then s else TrimLeft_space (drop (leading_space s) s))"
  by pat_completeness auto
termination
proof (relation "measure length")
  fix s :: string
  assume "leading_space s \<noteq> 0"
  moreover have "leading_space s \<le> length s"
    by (auto simp: leading_space_def find_Some_iff prefix_length_le split: option.splits)
  ultimately show "(drop (leading_space s) s, s) \<in> measure length"
    by simp
qed simp

function TrimRight_space :: "string \<Rightarrow> string" where
  "TrimRight_space s =
     (if trailing_space s = 0 then s
      else TrimRight_space (take (length s - trailing_space s) s))"
  by pat_completeness auto
termination
proof (relation "measure length")
  fix s :: string
  assume "trailing_space s \<noteq> 0"
  moreover have "trailing_space s \<le> length s"
    by (auto simp: trailing_space_def find_Some_iff suffix_length_le split: option.splits)
  ultimately show "(take (length s - trailing_space s) s, s) \<in> measure length"
    by simp
qed simp

declare TrimLeft_space.simps [simp del]
declare TrimRight_space.simps [simp del]

definition TrimSpace :: "string \<Rightarrow> string" where
  "TrimSpace s = TrimRight_space (TrimLeft_space s)"


section \<open>Errors\<close>

text \<open>
  The Go code reports every failure as an error value built from a message. The model
  keeps the kind of the failure:
  \<^item> \<open>InvalidName\<close>: the four messages of \<open>validateContextName\<close>;
  \<^item> \<open>NotFound\<close>: "context '...' not found";
  \<^item> \<open>AlreadyExists\<close>: "context '...' already exists";
  \<^item> \<open>InvalidContent\<close>: "invalid JSON in context '...'";
  \<^item> \<open>SourceInvalid\<close>: "no active opencode.json found at ..." and
    "current opencode.json is not valid JSON";
  \<^item> \<open>CurrentContextProtected\<close>: "cannot delete current context '...'";
  \<^item> \<open>NoPreviousContext\<close>: "no previous context available";
  \<^item> \<open>StalePrevious\<close>: "previous context '...' no longer exists";
  \<^item> \<open>UnsupportedFormat\<close>: "unsupported format: ...";
  \<^item> \<open>MarshalError\<close>: an error returned by \<open>json.MarshalIndent\<close>;
  \<^item> \<open>OSError\<close>: an error returned by a function of package \<open>os\<close>.
\<close>

datatype error =
    InvalidName
  | NotFound
  | AlreadyExists
  | InvalidContent
  | SourceInvalid
  | CurrentContextProtected
  | NoPreviousContext
  | StalePrevious
  | UnsupportedFormat
  | MarshalError
  | OSError

section \<open>The file system\<close>

text \<open>
  The file system is an association list from paths to nodes; the first binding of a path
  is the one that counts. A node is a regular file with its content, or a directory.
  A system call that fails leaves the file system as it was.
\<close>

datatype node = File string | Dir

type_synonym filesystem = "(string \<times> node) list"

definition fs_lookup :: "filesystem \<Rightarrow> string \<Rightarrow> node option" where
  "fs_lookup fs p = map_of fs p"

definition fs_put :: "string \<Rightarrow> node \<Rightarrow> filesystem \<Rightarrow> filesystem" where
  "fs_put p n fs = AList.update p n fs"

definition fs_del :: "string \<Rightarrow> filesystem \<Rightarrow> filesystem" where
  "fs_del p fs = AList.delete p fs"

text \<open>
  \<open>filepath.Join\<close> and \<open>filepath.Dir\<close> on cleaned paths with separator \<open>/\<close>. The
  manager joins a cleaned directory with a non-empty relative path that needs no cleaning:
  an empty directory is ignored, and a directory that ends in the separator (the root)
  gets no second one.
\<close>

definition filepath_Join :: "string \<Rightarrow> string \<Rightarrow> string" where
  "filepath_Join dir elem =
     (if dir = [] then elem
      else if last dir = CHR ''/'' then dir @ elem
      else dir @ ''/'' @ elem)"

definition filepath_Dir :: "string \<Rightarrow> string" where
  "filepath_Dir p =
     (if CHR ''/'' \<notin> set p then ''.''
      else (let d = rev (tl (dropWhile (\<lambda>c. c \<noteq> CHR ''/'') (rev p)))
            in if d = [] then ''/'' else d))"

text \<open>\<open>os.Stat(p)\<close> returns no error when \<open>p\<close> exists, and a not-exist error otherwise.\<close>

definition os_Stat :: "filesystem \<Rightarrow> string \<Rightarrow> bool" where
  "os_Stat fs p = (fs_lookup fs p \<noteq> None)"

definition os_ReadFile :: "filesystem \<Rightarrow> string \<Rightarrow> error + string" where
  "os_ReadFile fs p =
     (case fs_lookup fs p of Some (File content) \<Rightarrow> Inr content | _ \<Rightarrow> Inl OSError)"

text \<open>
  \<open>os.MkdirAll(p, 0755)\<close> succeeds when \<open>p\<close> is a directory already, creates it when
  nothing is there, and fails when \<open>p\<close> is a regular file. The directories above \<open>p\<close>
  are not tracked.
\<close>

definition os_MkdirAll :: "string \<Rightarrow> filesystem \<Rightarrow> error option \<times> filesystem" where
  "os_MkdirAll p fs =
     (case fs_lookup fs p of
        Some (File _) \<Rightarrow> (Some OSError, fs)
      | Some Dir \<Rightarrow> (None, fs)
      | None \<Rightarrow> (None, fs_put p Dir fs))"

text \<open>
  \<open>os.WriteFile(p, data, 0644)\<close> creates or truncates the regular file \<open>p\<close>; it fails
  when \<open>p\<close> is a directory or when the directory of \<open>p\<close> does not exist.
\<close>

definition os_WriteFile :: "string \<Rightarrow> string \<Rightarrow> filesystem \<Rightarrow> error option \<times> filesystem" where
  "os_WriteFile p content fs =
     (if fs_lookup fs p = Some Dir then (Some OSError, fs)
      else if fs_lookup fs (filepath_Dir p) \<noteq> Some Dir then (Some OSError, fs)
      else (None, fs_put p (File content) fs))"

text \<open>
  \<open>os.Rename(src, dst)\<close> of a regular file: \<open>dst\<close> is replaced when it is a regular
  file, and the call fails when \<open>src\<close> does not exist or \<open>dst\<close> is a directory.
  Renaming a file to itself changes nothing. The manager renames regular files only, and
  always inside one directory; renaming a directory is not modelled and fails here.
\<close>

definition os_Rename :: "string \<Rightarrow> string \<Rightarrow> filesystem \<Rightarrow> error option \<times> filesystem" where
  "os_Rename src dst fs =
     (case fs_lookup fs src of
        Some (File content) \<Rightarrow>
          (if src = dst then (None, fs)
           else if fs_lookup fs dst = Some Dir then (Some OSError, fs)
           else (None, fs_put dst (File content) (fs_del src fs)))
      | _ \<Rightarrow> (Some OSError, fs))"

text \<open>
  \<open>os.Remove(p)\<close> of a regular file. Removing a directory is not modelled and fails here.
\<close>

definition os_Remove :: "string \<Rightarrow> filesystem \<Rightarrow> error option \<times> filesystem" where
  "os_Remove p fs =
     (case fs_lookup fs p of
        Some (File _) \<Rightarrow> (None, fs_del p fs)
      | _ \<Rightarrow> (Some OSError, fs))"




section \<open>Package config: the paths\<close>

definition OpenCodeConfigDir :: string where
  "OpenCodeConfigDir = ''.config/opencode''"

definition SettingsSubDir :: string where
  "SettingsSubDir = ''settings''"

definition StateFileName :: string where
  "StateFileName = ''.occtx-state.json''"

definition ActiveConfigFileName :: string where
  "ActiveConfigFileName = ''opencode.json''"

definition ProjectConfigFileName :: string where
  "ProjectConfigFileName = ''opencode.json''"

definition ProjectConfigDirName :: string where
  "ProjectConfigDirName = ''opencode''"

record Paths =
  GlobalConfigDir :: string
  GlobalSettingsDir :: string
  GlobalActiveConfig :: string
  GlobalStateFile :: string
  ProjectConfigDir :: string
  ProjectSettingsDir :: string
  ProjectActiveConfig :: string
  ProjectStateFile :: string

text \<open>
  \<open>NewPaths\<close>, from the home directory and the working directory that
  \<open>os.UserHomeDir\<close> and \<open>os.Getwd\<close> return (cleaned paths).
\<close>

definition NewPaths :: "string \<Rightarrow> string \<Rightarrow> Paths" where
  "NewPaths homeDir currentDir =
     (let globalConfigDir = filepath_Join homeDir OpenCodeConfigDir;
          globalSettingsDir = filepath_Join globalConfigDir SettingsSubDir;
          projectConfigDir = filepath_Join currentDir ProjectConfigDirName;
          projectSettingsDir = filepath_Join projectConfigDir SettingsSubDir
      in \<lparr>GlobalConfigDir = globalConfigDir,
          GlobalSettingsDir = globalSettingsDir,
          GlobalActiveConfig = filepath_Join globalConfigDir ActiveConfigFileName,
          GlobalStateFile = filepath_Join globalSettingsDir StateFileName,
          ProjectConfigDir = projectConfigDir,
          ProjectSettingsDir = projectSettingsDir,
          ProjectActiveConfig = filepath_Join currentDir ProjectConfigFileName,
          ProjectStateFile = filepath_Join projectSettingsDir StateFileName\<rparr>)"

definition GetContextsDir :: "Paths \<Rightarrow> bool \<Rightarrow> string" where
  "GetContextsDir p useProject =
     (if useProject then ProjectSettingsDir p else GlobalSettingsDir p)"

definition GetActiveConfigPath :: "Paths \<Rightarrow> bool \<Rightarrow> string" where
  "GetActiveConfigPath p useProject =
     (if useProject then ProjectActiveConfig p else GlobalActiveConfig p)"

definition GetStateFilePath :: "Paths \<Rightarrow> bool \<Rightarrow> string" where
  "GetStateFilePath p useProject =
     (if useProject then ProjectStateFile p else GlobalStateFile p)"

text \<open>\<open>EnsureDirectories\<close>: the loop over the two directories stops at the first error.\<close>

fun MkdirAll_each :: "string list \<Rightarrow> filesystem \<Rightarrow> error option \<times> filesystem" where
  "MkdirAll_each [] fs = (None, fs)"
| "MkdirAll_each (dir # dirs) fs =
     (case os_MkdirAll dir fs of
        (Some e, fs') \<Rightarrow> (Some e, fs')
      | (None, fs') \<Rightarrow> MkdirAll_each dirs fs')"

definition EnsureDirectories :: "Paths \<Rightarrow> bool \<Rightarrow> filesystem \<Rightarrow> error option \<times> filesystem" where
  "EnsureDirectories p useProject fs =
     (let dirs = (if useProject then [ProjectConfigDir p, ProjectSettingsDir p]
                  else [GlobalConfigDir p, GlobalSettingsDir p])
      in MkdirAll_each dirs fs)"

section \<open>Package context: the formats\<close>

text \<open>\<open>ContextFormat\<close> is a Go \<open>int\<close> with two named values.\<close>

type_synonym ContextFormat = int

definition FormatJSON :: ContextFormat where
  "FormatJSON = 0"

definition FormatJSONC :: ContextFormat where
  "FormatJSONC = 1"

definition FileExtension :: "ContextFormat \<Rightarrow> string" where
  "FileExtension f =
     (if f = FormatJSON then ''.json''
      else if f = FormatJSONC then ''.jsonc''
      else ''.json'')"

definition DisplayName :: "ContextFormat \<Rightarrow> string" where
  "DisplayName f =
     (if f = FormatJSON then ''JSON''
      else if f = FormatJSONC then ''JSONC''
      else ''Unknown'')"

definition GetAllFormats :: "ContextFormat list" where
  "GetAllFormats = [FormatJSON, FormatJSONC]"

section \<open>Package context: the state\<close>

record State =
  Current :: string
  Previous :: string

definition empty_State :: State where
  "empty_State = \<lparr>Current = [], Previous = []\<rparr>"

text \<open>
  Package \<open>encoding/json\<close> is not part of the repository: its four uses are parameters
  of the model. \<open>'d\<close> is the type of a decoded document (Go's
  \<open>map[string]interface{}\<close>), which the manager never inspects. A function that
  returns an error in Go returns \<open>None\<close> here.
\<close>

record 'd json_lib =
  Unmarshal_object :: "string \<Rightarrow> 'd option"
  MarshalIndent_object :: "'d \<Rightarrow> string option"
  Unmarshal_State :: "string \<Rightarrow> State option"
  MarshalIndent_State :: "State \<Rightarrow> string option"

definition LoadState :: "'d json_lib \<Rightarrow> string \<Rightarrow> filesystem \<Rightarrow> error + State" where
  "LoadState lib stateFilePath fs =
     (if \<not> os_Stat fs stateFilePath then Inr empty_State
      else (case os_ReadFile fs stateFilePath of
              Inl e \<Rightarrow> Inl e
            | Inr content \<Rightarrow>
                (case Unmarshal_State lib content of
                   None \<Rightarrow> Inr empty_State
                 | Some state \<Rightarrow> Inr state)))"

definition SaveState ::
  "'d json_lib \<Rightarrow> State \<Rightarrow> string \<Rightarrow> filesystem \<Rightarrow> error option \<times> filesystem" where
  "SaveState lib s stateFilePath fs =
     (case os_MkdirAll (filepath_Dir stateFilePath) fs of
        (Some e, fs1) \<Rightarrow> (Some e, fs1)
      | (None, fs1) \<Rightarrow>
          (case MarshalIndent_State lib s of
             None \<Rightarrow> (Some MarshalError, fs1)
           | Some content \<Rightarrow>
               (let tempFile = stateFilePath @ ''.tmp'' in
                (case os_WriteFile tempFile content fs1 of
                   (Some e, fs2) \<Rightarrow> (Some e, fs2)
                 | (None, fs2) \<Rightarrow> os_Rename tempFile stateFilePath fs2))))"

definition SetCurrent :: "State \<Rightarrow> string \<Rightarrow> State" where
  "SetCurrent s contextName = \<lparr>Current = contextName, Previous = Current s\<rparr>"

definition Unset :: "State \<Rightarrow> State" where
  "Unset s = \<lparr>Current = [], Previous = Current s\<rparr>"

text \<open>
  \<open>State.SwitchToPrevious\<close> changes the state in place and returns a flag; the model
  returns the flag and the state after the call.
\<close>

definition State_SwitchToPrevious :: "State \<Rightarrow> bool \<times> State" where
  "State_SwitchToPrevious s =
     (if Previous s = [] then (False, s)
      else (True, \<lparr>Current = Previous s, Previous = Current s\<rparr>))"

section \<open>Package context: the manager\<close>

record 'd Context =
  Name :: string
  Data :: "'d option"
  FilePath :: string

record Manager =
  paths :: Paths
  useProject :: bool

definition NewManager :: "string \<Rightarrow> string \<Rightarrow> bool \<Rightarrow> Manager" where
  "NewManager homeDir currentDir up = \<lparr>paths = NewPaths homeDir currentDir, useProject = up\<rparr>"

definition validateContextName :: "string \<Rightarrow> error option" where
  "validateContextName name =
     (if name = [] then Some InvalidName
      else if Contains name ''/'' \<or> Contains name [bslash] then Some InvalidName
      else if name = ''.'' \<or> name = ''..'' then Some InvalidName
      else if HasPrefix name ''.'' then Some InvalidName
      else None)"



text \<open>
  The comment removal of \<open>GetContext\<close>: the lines whose trimmed text starts with
  \<open>//\<close> are dropped.
\<close>

definition strip_comment_lines :: "string \<Rightarrow> string" where
  "strip_comment_lines content =
     Join_nl (filter (\<lambda>line. \<not> HasPrefix (TrimSpace line) ''//'') (Split_nl content))"

definition GetContext :: "'d json_lib \<Rightarrow> Manager \<Rightarrow> string \<Rightarrow> filesystem \<Rightarrow> error + 'd Context" where
  "GetContext lib m name fs =
     (case validateContextName name of
        Some e \<Rightarrow> Inl e
      | None \<Rightarrow>
          (let contextsDir = GetContextsDir (paths m) (useProject m);
               jsonPath = filepath_Join contextsDir (name @ ''.json'');
               jsoncPath = filepath_Join contextsDir (name @ ''.jsonc'')
           in (case (if os_Stat fs jsonPath then Some jsonPath
                     else if os_Stat fs jsoncPath then Some jsoncPath
                     else None) of
                 None \<Rightarrow> Inl NotFound
               | Some contextPath \<Rightarrow>
                   (case os_ReadFile fs contextPath of
                      Inl e \<Rightarrow> Inl e
                    | Inr content \<Rightarrow>
                        (case Unmarshal_object lib
                                (if HasSuffix contextPath ''.jsonc''
                                 then strip_comment_lines content else content) of
                           None \<Rightarrow> Inl InvalidContent
                         | Some contextData \<Rightarrow>
                             Inr \<lparr>Name = name, Data = Some contextData,
                                  FilePath = contextPath\<rparr>)))))"

text \<open>
  \<open>CreateContextWithFormat\<close>; \<open>now\<close> is the text of
  \<open>time.Now().Format("2006-01-02 15:04:05")\<close>.
\<close>

definition comment_header :: "string \<Rightarrow> ContextFormat \<Rightarrow> string \<Rightarrow> string" where
  "comment_header name format now =
     ''// opencode context: '' @ name @ [nl] @
     ''// Format: '' @ DisplayName format @ [nl] @
     ''// Created: '' @ now @ [nl]"

definition CreateContextWithFormat ::
  "'d json_lib \<Rightarrow> Manager \<Rightarrow> string \<Rightarrow> ContextFormat \<Rightarrow> string \<Rightarrow> filesystem
     \<Rightarrow> error option \<times> filesystem" where
  "CreateContextWithFormat lib m name format now fs =
     (case validateContextName name of
        Some e \<Rightarrow> (Some e, fs)
      | None \<Rightarrow>
          (case EnsureDirectories (paths m) (useProject m) fs of
             (Some e, fs1) \<Rightarrow> (Some e, fs1)
           | (None, fs1) \<Rightarrow>
               (let fileExt = FileExtension format;
                    contextsDir = GetContextsDir (paths m) (useProject m);
                    contextPath = filepath_Join contextsDir (name @ fileExt)
                in if list_ex (\<lambda>f. os_Stat fs1 (filepath_Join contextsDir (name @ FileExtension f)))
                        GetAllFormats
                   then (Some AlreadyExists, fs1)
                   else
                     (let activeConfigPath = GetActiveConfigPath (paths m) (useProject m) in
                      if \<not> os_Stat fs1 activeConfigPath then (Some SourceInvalid, fs1)
                      else
                        (case os_ReadFile fs1 activeConfigPath of
                           Inl e \<Rightarrow> (Some e, fs1)
                         | Inr content \<Rightarrow>
                             (case Unmarshal_object lib content of
                                None \<Rightarrow> (Some SourceInvalid, fs1)
                              | Some jsonData \<Rightarrow>
                                  (case (if format = FormatJSONC then
                                           (case MarshalIndent_object lib jsonData of
                                              None \<Rightarrow> Inl MarshalError
                                            | Some formattedJSON \<Rightarrow>
                                                Inr (comment_header name format now @ formattedJSON))
                                         else if format = FormatJSON then
                                           (case MarshalIndent_object lib jsonData of
                                              None \<Rightarrow> Inl MarshalError
                                            | Some formattedJSON \<Rightarrow> Inr formattedJSON)
                                         else Inl UnsupportedFormat) of
                                     Inl e \<Rightarrow> (Some e, fs1)
                                   | Inr formattedData \<Rightarrow>
                                       (let tempPath = contextPath @ ''.tmp'' in
                                        (case os_WriteFile tempPath formattedData fs1 of
                                           (Some e, fs2) \<Rightarrow> (Some e, fs2)
                                         | (None, fs2) \<Rightarrow>
                                             os_Rename tempPath contextPath fs2)))))))))"

definition SwitchToContext ::
  "'d json_lib \<Rightarrow> Manager \<Rightarrow> string \<Rightarrow> filesystem \<Rightarrow> error option \<times> filesystem" where
  "SwitchToContext lib m name fs =
     (case GetContext lib m name fs of
        Inl e \<Rightarrow> (Some e, fs)
      | Inr ctx \<Rightarrow>
          (let activeConfigPath = GetActiveConfigPath (paths m) (useProject m) in
           (case os_MkdirAll (filepath_Dir activeConfigPath) fs of
              (Some e, fs1) \<Rightarrow> (Some e, fs1)
            | (None, fs1) \<Rightarrow>
                (case os_ReadFile fs1 (FilePath ctx) of
                   Inl e \<Rightarrow> (Some e, fs1)
                 | Inr content \<Rightarrow>
                     (let tempPath = activeConfigPath @ ''.tmp'' in
                      (case os_WriteFile tempPath content fs1 of
                         (Some e, fs2) \<Rightarrow> (Some e, fs2)
                       | (None, fs2) \<Rightarrow>
                           (case os_Rename tempPath activeConfigPath fs2 of
                              (Some e, fs3) \<Rightarrow> (Some e, fs3)
                            | (None, fs3) \<Rightarrow>
                                (let stateFilePath = GetStateFilePath (paths m) (useProject m) in
                                 (case LoadState lib stateFilePath fs3 of
                                    Inl e \<Rightarrow> (Some e, fs3)
                                  | Inr state \<Rightarrow>
                                      SaveState lib (SetCurrent state name) stateFilePath fs3)))))))))"

definition DeleteContext ::
  "'d json_lib \<Rightarrow> Manager \<Rightarrow> string \<Rightarrow> filesystem \<Rightarrow> error option \<times> filesystem" where
  "DeleteContext lib m name fs =
     (case validateContextName name of
        Some e \<Rightarrow> (Some e, fs)
      | None \<Rightarrow>
          (case GetContext lib m name fs of
             Inl e \<Rightarrow> (Some e, fs)
           | Inr ctx \<Rightarrow>
               (let stateFilePath = GetStateFilePath (paths m) (useProject m) in
                (case LoadState lib stateFilePath fs of
                   Inl e \<Rightarrow> (Some e, fs)
                 | Inr state \<Rightarrow>
                     if Current state = name then (Some CurrentContextProtected, fs)
                     else os_Remove (FilePath ctx) fs))))"

definition RenameContext ::
  "'d json_lib \<Rightarrow> Manager \<Rightarrow> string \<Rightarrow> string \<Rightarrow> filesystem \<Rightarrow> error option \<times> filesystem" where
  "RenameContext lib m oldName newName fs =
     (case validateContextName oldName of
        Some e \<Rightarrow> (Some e, fs)
      | None \<Rightarrow>
          (case validateContextName newName of
             Some e \<Rightarrow> (Some e, fs)
           | None \<Rightarrow>
               (case GetContext lib m oldName fs of
                  Inl e \<Rightarrow> (Some e, fs)
                | Inr oldContext \<Rightarrow>
                    (let contextsDir = GetContextsDir (paths m) (useProject m);
                         newContextPath = filepath_Join contextsDir (newName @ ''.json'')
                     in if os_Stat fs newContextPath then (Some AlreadyExists, fs)
                        else
                          (case os_Rename (FilePath oldContext) newContextPath fs of
                             (Some e, fs1) \<Rightarrow> (Some e, fs1)
                           | (None, fs1) \<Rightarrow>
                               (let stateFilePath = GetStateFilePath (paths m) (useProject m) in
                                (case LoadState lib stateFilePath fs1 of
                                   Inl e \<Rightarrow> (Some e, fs1)
                                 | Inr state \<Rightarrow>
                                     (let state1 = (if Current state = oldName
                                                    then state\<lparr>Current := newName\<rparr> else state);
                                          state2 = (if Previous state1 = oldName
                                                    then state1\<lparr>Previous := newName\<rparr> else state1);
                                          updated = (Current state = oldName \<or> Previous state1 = oldName)
                                      in if updated then SaveState lib state2 stateFilePath fs1
                                         else (None, fs1)))))))))"

definition GetCurrentContext :: "'d json_lib \<Rightarrow> Manager \<Rightarrow> filesystem \<Rightarrow> error + string" where
  "GetCurrentContext lib m fs =
     (case LoadState lib (GetStateFilePath (paths m) (useProject m)) fs of
        Inl e \<Rightarrow> Inl e
      | Inr state \<Rightarrow> Inr (Current state))"

text \<open>
  The manager's \<open>SwitchToPrevious\<close>. The swap is made on the state value that
  \<open>LoadState\<close> returned; nothing is saved before \<open>SwitchToContext\<close> runs.
\<close>

definition SwitchToPrevious ::
  "'d json_lib \<Rightarrow> Manager \<Rightarrow> filesystem \<Rightarrow> error option \<times> filesystem" where
  "SwitchToPrevious lib m fs =
     (let stateFilePath = GetStateFilePath (paths m) (useProject m) in
      (case LoadState lib stateFilePath fs of
         Inl e \<Rightarrow> (Some e, fs)
       | Inr state \<Rightarrow>
           (case State_SwitchToPrevious state of
              (False, _) \<Rightarrow> (Some NoPreviousContext, fs)
            | (True, state') \<Rightarrow>
                (case GetContext lib m (Current state') fs of
                   Inl _ \<Rightarrow> (Some StalePrevious, fs)
                 | Inr _ \<Rightarrow> SwitchToContext lib m (Current state') fs))))"

definition UnsetCurrentContext ::
  "'d json_lib \<Rightarrow> Manager \<Rightarrow> filesystem \<Rightarrow> error option \<times> filesystem" where
  "UnsetCurrentContext lib m fs =
     (let activeConfigPath = GetActiveConfigPath (paths m) (useProject m) in
      (case (if os_Stat fs activeConfigPath then os_Remove activeConfigPath fs else (None, fs)) of
         (Some e, fs1) \<Rightarrow> (Some e, fs1)
       | (None, fs1) \<Rightarrow>
           (let stateFilePath = GetStateFilePath (paths m) (useProject m) in
            (case LoadState lib stateFilePath fs1 of
               Inl e \<Rightarrow> (Some e, fs1)
             | Inr state \<Rightarrow> SaveState lib (Unset state) stateFilePath fs1))))"

section \<open>A sample of the JSON functions\<close>

text \<open>
  To evaluate the manager on concrete file systems, the JSON functions are instantiated
  on flat documents of string members. \<open>sample_indent\<close> is the text that
  \<open>json.MarshalIndent(v, "", "  ")\<close> produces for such a document when no character
  needs escaping; a state is encoded by its non-empty fields (\<open>omitempty\<close>). Decoding
  recognises the encodings of the documents and states listed below and rejects every
  other text.
\<close>

definition dq :: char where
  "dq = CHR 0x22"

definition quoted :: "string \<Rightarrow> string" where
  "quoted s = [dq] @ s @ [dq]"

fun sample_members :: "(string \<times> string) list \<Rightarrow> string" where
  "sample_members [] = []"
| "sample_members [(k, v)] = ''  '' @ quoted k @ '': '' @ quoted v @ [nl]"
| "sample_members ((k, v) # kvs) =
     ''  '' @ quoted k @ '': '' @ quoted v @ '','' @ [nl] @ sample_members kvs"

definition sample_indent :: "(string \<times> string) list \<Rightarrow> string" where
  "sample_indent kvs = (if kvs = [] then ''{}'' else ''{'' @ [nl] @ sample_members kvs @ ''}'')"

definition sample_compact :: "(string \<times> string) list \<Rightarrow> string" where
  "sample_compact kvs =
     ''{'' @ concat (map (\<lambda>(k, v). quoted k @ '':'' @ quoted v) kvs) @ ''}''"

definition sample_state_members :: "State \<Rightarrow> (string \<times> string) list" where
  "sample_state_members s =
     (if Current s = [] then [] else [(''current'', Current s)]) @
     (if Previous s = [] then [] else [(''previous'', Previous s)])"

definition sample_documents :: "(string \<times> string) list list" where
  "sample_documents = [[], [(''theme'', ''dark'')], [(''theme'', ''light'')]]"

definition sample_names :: "string list" where
  "sample_names = [[], ''work'', ''home'', ''ghost'']"

definition sample_states :: "State list" where
  "sample_states =
     concat (map (\<lambda>c. map (\<lambda>p. \<lparr>Current = c, Previous = p\<rparr>) sample_names) sample_names)"

definition sample_json :: "(string \<times> string) list json_lib" where
  "sample_json =
     \<lparr>Unmarshal_object =
        (\<lambda>b. find (\<lambda>d. sample_indent d = b \<or> sample_compact d = b) sample_documents),
      MarshalIndent_object = (\<lambda>d. Some (sample_indent d)),
      Unmarshal_State =
        (\<lambda>b. find (\<lambda>s. sample_indent (sample_state_members s) = b) sample_states),
      MarshalIndent_State = (\<lambda>s. Some (sample_indent (sample_state_members s)))\<rparr>"

section \<open>An example installation\<close>

text \<open>
  A manager for the global scope of user \<open>u\<close>, and a file system with an active
  configuration, two saved contexts and a state file whose current context is \<open>work\<close>
  and whose previous context is \<open>home\<close>.
\<close>

definition example_manager :: Manager where
  "example_manager = NewManager ''/home/u'' ''/proj'' False"

definition example_fs :: filesystem where
  "example_fs =
     [(''/home/u/.config/opencode'', Dir),
      (''/home/u/.config/opencode/settings'', Dir),
      (''/home/u/.config/opencode/opencode.json'', File (sample_compact [(''theme'', ''dark'')])),
      (''/home/u/.config/opencode/settings/work.json'', File (sample_indent [(''theme'', ''dark'')])),
      (''/home/u/.config/opencode/settings/home.json'', File (sample_indent [(''theme'', ''light'')])),
      (''/home/u/.config/opencode/settings/.occtx-state.json'',
         File (sample_indent [(''current'', ''work''), (''previous'', ''home'')]))]"

text \<open>A contexts directory that holds \<open>work\<close> in both formats.\<close>

definition both_formats_fs :: filesystem where
  "both_formats_fs =
     [(''/home/u/.config/opencode/settings'', Dir),
      (''/home/u/.config/opencode/settings/work.jsonc'',
         File (sample_indent [(''theme'', ''light'')])),
      (''/home/u/.config/opencode/settings/work.json'',
         File (sample_indent [(''theme'', ''dark'')]))]"

text \<open>
  A file system whose state file names \<open>ghost\<close> as the previous context, while no
  context file of that name exists.
\<close>

definition stale_fs :: filesystem where
  "stale_fs =
     [(''/home/u/.config/opencode'', Dir),
      (''/home/u/.config/opencode/settings'', Dir),
      (''/home/u/.config/opencode/opencode.json'', File (sample_indent [(''theme'', ''dark'')])),
      (''/home/u/.config/opencode/settings/work.json'', File (sample_indent [(''theme'', ''dark'')])),
      (''/home/u/.config/opencode/settings/.occtx-state.json'',
         File (sample_indent [(''current'', ''work''), (''previous'', ''ghost'')]))]"



text \<open>
  A file system with the JSONC context \<open>notes\<close>, as \<open>CreateContextWithFormat\<close>
  writes it: three comment lines, then the document.
\<close>

definition jsonc_fs :: filesystem where
  "jsonc_fs =
     [(''/home/u/.config/opencode'', Dir),
      (''/home/u/.config/opencode/settings'', Dir),
      (''/home/u/.config/opencode/opencode.json'', File (sample_compact [(''theme'', ''dark'')])),
      (''/home/u/.config/opencode/settings/notes.jsonc'',
         File (comment_header ''notes'' FormatJSONC ''2025-01-01 00:00:00''
                 @ sample_indent [(''theme'', ''dark'')])),
      (''/home/u/.config/opencode/settings/.occtx-state.json'',
         File (sample_indent [(''current'', ''notes'')]))]"

section \<open>Properties of the file system\<close>

lemma fs_lookup_put [simp]:
  "fs_lookup (fs_put p n fs) q = (if q = p then Some n else fs_lookup fs q)"
  by (simp add: fs_lookup_def fs_put_def update_conv')

lemma fs_lookup_del [simp]:
  "fs_lookup (fs_del p fs) q = (if q = p then None else fs_lookup fs q)"
  by (simp add: fs_lookup_def fs_del_def delete_conv')

lemma filepath_Join_plain:
  "dir \<noteq> [] \<Longrightarrow> last dir \<noteq> CHR ''/'' \<Longrightarrow> filepath_Join dir elem = dir @ ''/'' @ elem"
  by (simp add: filepath_Join_def)

lemma last_filepath_Join: "elem \<noteq> [] \<Longrightarrow> last (filepath_Join dir elem) = last elem"
  by (simp add: filepath_Join_def)

lemma filepath_Join_not_Nil: "elem \<noteq> [] \<Longrightarrow> filepath_Join dir elem \<noteq> []"
  by (simp add: filepath_Join_def)

lemma NewManager_contexts_dir:
  assumes "m = NewManager h c up"
  shows "GetContextsDir (paths m) (useProject m) \<noteq> []"
    and "last (GetContextsDir (paths m) (useProject m)) \<noteq> CHR ''/''"
    and "filepath_Join (GetContextsDir (paths m) (useProject m)) elem
           = GetContextsDir (paths m) (useProject m) @ ''/'' @ elem"
proof -
  have "GetContextsDir (paths m) (useProject m)
          = filepath_Join (if up then filepath_Join c ProjectConfigDirName
                           else filepath_Join h OpenCodeConfigDir) SettingsSubDir"
    using assms by (simp add: NewManager_def NewPaths_def GetContextsDir_def Let_def)
  then show d: "GetContextsDir (paths m) (useProject m) \<noteq> []"
    and l: "last (GetContextsDir (paths m) (useProject m)) \<noteq> CHR ''/''"
    by (simp_all add: filepath_Join_not_Nil last_filepath_Join SettingsSubDir_def)
  from filepath_Join_plain [OF d l]
  show "filepath_Join (GetContextsDir (paths m) (useProject m)) elem
           = GetContextsDir (paths m) (useProject m) @ ''/'' @ elem" .
qed

section \<open>Loading the state\<close>

text \<open>
  Claim C4. \<open>LoadState\<close> returns the zero-value state, and no error, when the state file
  is absent, and also when the file is there but its content does not decode as a state;
  whatever a readable state file contains, \<open>LoadState\<close> returns a state and never an
  error.
\<close>

theorem LoadState_total_recovery:
  "(fs_lookup fs p = None \<longrightarrow> LoadState lib p fs = Inr \<lparr>Current = [], Previous = []\<rparr>) \<and>
   (\<forall>content. fs_lookup fs p = Some (File content) \<and> Unmarshal_State lib content = None
      \<longrightarrow> LoadState lib p fs = Inr \<lparr>Current = [], Previous = []\<rparr>) \<and>
   (\<forall>content. fs_lookup fs p = Some (File content) \<longrightarrow> (\<exists>s. LoadState lib p fs = Inr s))"
  by (simp add: LoadState_def os_Stat_def os_ReadFile_def empty_State_def split: option.splits)

text \<open>
  The two cases at concrete inputs: no state file, and a state file holding the text
  \<open>invalid json\<close>.
\<close>

theorem LoadState_total_recovery_witness:
  "LoadState sample_json ''/s/.occtx-state.json'' [] = Inr \<lparr>Current = [], Previous = []\<rparr> \<and>
   LoadState sample_json ''/s/.occtx-state.json''
     [(''/s/.occtx-state.json'', File ''invalid json'')] = Inr \<lparr>Current = [], Previous = []\<rparr>"
proof -
  have absent: "fs_lookup [] ''/s/.occtx-state.json'' = None"
    by (simp add: fs_lookup_def)
  have present:
    "fs_lookup [(''/s/.occtx-state.json'', File ''invalid json'')] ''/s/.occtx-state.json''
       = Some (File ''invalid json'') \<and> Unmarshal_State sample_json ''invalid json'' = None"
    by code_simp
  from LoadState_total_recovery [of "[]" "''/s/.occtx-state.json''" sample_json] absent
  have "LoadState sample_json ''/s/.occtx-state.json'' [] = Inr \<lparr>Current = [], Previous = []\<rparr>"
    by blast
  moreover
  from LoadState_total_recovery [of "[(''/s/.occtx-state.json'', File ''invalid json'')]"
      "''/s/.occtx-state.json''" sample_json] present
  have "LoadState sample_json ''/s/.occtx-state.json''
     [(''/s/.occtx-state.json'', File ''invalid json'')] = Inr \<lparr>Current = [], Previous = []\<rparr>"
    by blast
  ultimately show ?thesis by blast
qed

section \<open>Name validation\<close>

lemma Contains_char: "Contains s [c] \<longleftrightarrow> c \<in> set s"
  by (induction s) auto

lemma validateContextName_None_iff:
  "validateContextName name = None \<longleftrightarrow>
     name \<noteq> [] \<and> CHR ''/'' \<notin> set name \<and> bslash \<notin> set name \<and> hd name \<noteq> CHR ''.''"
  by (cases name) (auto simp: validateContextName_def Contains_char HasPrefix_def)

lemma validateContextName_Some: "validateContextName name = Some e \<Longrightarrow> e = InvalidName"
  by (auto simp: validateContextName_def split: if_splits)

text \<open>
  Claim C9. For a name that is empty, is \<open>.\<close> or \<open>..\<close>, contains \<open>/\<close> or a
  backslash, or starts with \<open>.\<close>, each of get, create, delete and rename (in either
  argument) fails with \<open>InvalidName\<close>, whatever the file system holds, and returns the
  file system unchanged.
\<close>

theorem invalid_name_rejected_first:
  assumes "name = [] \<or> name = ''.'' \<or> name = ''..'' \<or> CHR ''/'' \<in> set name
             \<or> bslash \<in> set name \<or> HasPrefix name ''.''"
  shows "GetContext lib m name fs = Inl InvalidName \<and>
         CreateContextWithFormat lib m name format now fs = (Some InvalidName, fs) \<and>
         DeleteContext lib m name fs = (Some InvalidName, fs) \<and>
         RenameContext lib m name other fs = (Some InvalidName, fs) \<and>
         RenameContext lib m other name fs = (Some InvalidName, fs)"
proof -
  from assms have "validateContextName name \<noteq> None"
    by (auto simp: validateContextName_None_iff HasPrefix_def prefix_def)
  then have bad: "validateContextName name = Some InvalidName"
    using validateContextName_Some by (cases "validateContextName name") auto
  have other: "validateContextName other = None \<or> validateContextName other = Some InvalidName"
    using validateContextName_Some by (cases "validateContextName other") auto
  have "GetContext lib m name fs = Inl InvalidName"
    by (simp add: GetContext_def bad)
  moreover have "CreateContextWithFormat lib m name format now fs = (Some InvalidName, fs)"
    by (simp add: CreateContextWithFormat_def bad)
  moreover have "DeleteContext lib m name fs = (Some InvalidName, fs)"
    by (simp add: DeleteContext_def bad)
  moreover have "RenameContext lib m name other fs = (Some InvalidName, fs)"
    by (simp add: RenameContext_def bad)
  moreover have "RenameContext lib m other name fs = (Some InvalidName, fs)"
    using other by (auto simp add: RenameContext_def bad)
  ultimately show ?thesis by blast
qed

text \<open>The name \<open>../etc\<close> on the example installation.\<close>

theorem invalid_name_rejected_first_witness:
  "GetContext sample_json example_manager ''../etc'' example_fs = Inl InvalidName \<and>
   CreateContextWithFormat sample_json example_manager ''../etc'' FormatJSON
       ''2025-01-01 00:00:00'' example_fs = (Some InvalidName, example_fs) \<and>
   DeleteContext sample_json example_manager ''../etc'' example_fs
     = (Some InvalidName, example_fs) \<and>
   RenameContext sample_json example_manager ''../etc'' ''work'' example_fs
     = (Some InvalidName, example_fs) \<and>
   RenameContext sample_json example_manager ''work'' ''../etc'' example_fs
     = (Some InvalidName, example_fs)"
proof -
  have "CHR ''/'' \<in> set ''../etc''" by simp
  then show ?thesis
    using invalid_name_rejected_first [of "''../etc''" sample_json example_manager example_fs
        FormatJSON "''2025-01-01 00:00:00''" "''work''"]
    by blast
qed

section \<open>Reading a context\<close>

lemma not_HasSuffix_jsonc: "\<not> HasSuffix (filepath_Join dir (name @ ''.json'')) ''.jsonc''"
  by (simp add: HasSuffix_def filepath_Join_def suffix_to_prefix)

lemma HasSuffix_jsonc: "HasSuffix (filepath_Join dir (name @ ''.jsonc'')) ''.jsonc''"
  by (simp add: HasSuffix_def filepath_Join_def suffix_to_prefix)

lemma GetContext_json:
  assumes "validateContextName name = None"
    and "fs_lookup fs (filepath_Join (GetContextsDir (paths m) (useProject m)) (name @ ''.json''))
           = Some (File cj)"
  shows "GetContext lib m name fs =
           (case Unmarshal_object lib cj of
              None \<Rightarrow> Inl InvalidContent
            | Some d \<Rightarrow>
                Inr \<lparr>Name = name, Data = Some d,
                     FilePath = filepath_Join (GetContextsDir (paths m) (useProject m))
                                  (name @ ''.json'')\<rparr>)"
  using assms
  by (simp add: GetContext_def Let_def os_Stat_def os_ReadFile_def not_HasSuffix_jsonc)

lemma GetContext_jsonc:
  assumes "validateContextName name = None"
    and "fs_lookup fs (filepath_Join (GetContextsDir (paths m) (useProject m)) (name @ ''.json''))
           = None"
    and "fs_lookup fs (filepath_Join (GetContextsDir (paths m) (useProject m)) (name @ ''.jsonc''))
           = Some (File cc)"
  shows "GetContext lib m name fs =
           (case Unmarshal_object lib (strip_comment_lines cc) of
              None \<Rightarrow> Inl InvalidContent
            | Some d \<Rightarrow>
                Inr \<lparr>Name = name, Data = Some d,
                     FilePath = filepath_Join (GetContextsDir (paths m) (useProject m))
                                  (name @ ''.jsonc'')\<rparr>)"
  using assms
  by (simp add: GetContext_def Let_def os_Stat_def os_ReadFile_def HasSuffix_jsonc)

lemma GetContext_absent:
  assumes "validateContextName name = None"
    and "fs_lookup fs (filepath_Join (GetContextsDir (paths m) (useProject m)) (name @ ''.json''))
           = None"
    and "fs_lookup fs (filepath_Join (GetContextsDir (paths m) (useProject m)) (name @ ''.jsonc''))
           = None"
  shows "GetContext lib m name fs = Inl NotFound"
  using assms
  by (simp add: GetContext_def Let_def os_Stat_def)

text \<open>
  Claim C8. For a valid name, \<open>GetContext\<close> probes \<open>name.json\<close> first and
  \<open>name.jsonc\<close> second: when \<open>name.json\<close> is a file it is the one read (whether or
  not \<open>name.jsonc\<close> exists too) and its content is decoded as it is; when only
  \<open>name.jsonc\<close> is there, that file is read and decoded after the comment lines are
  removed; when neither exists the result is \<open>NotFound\<close>.
\<close>

theorem GetContext_resolution_order:
  assumes "validateContextName name = None"
    and "jsonPath = filepath_Join (GetContextsDir (paths m) (useProject m)) (name @ ''.json'')"
    and "jsoncPath = filepath_Join (GetContextsDir (paths m) (useProject m)) (name @ ''.jsonc'')"
  shows "(\<forall>cj. fs_lookup fs jsonPath = Some (File cj) \<longrightarrow>
            GetContext lib m name fs =
              (case Unmarshal_object lib cj of
                 None \<Rightarrow> Inl InvalidContent
               | Some d \<Rightarrow> Inr \<lparr>Name = name, Data = Some d, FilePath = jsonPath\<rparr>)) \<and>
         (\<forall>cc. fs_lookup fs jsonPath = None \<and> fs_lookup fs jsoncPath = Some (File cc) \<longrightarrow>
            GetContext lib m name fs =
              (case Unmarshal_object lib (strip_comment_lines cc) of
                 None \<Rightarrow> Inl InvalidContent
               | Some d \<Rightarrow> Inr \<lparr>Name = name, Data = Some d, FilePath = jsoncPath\<rparr>)) \<and>
         (fs_lookup fs jsonPath = None \<and> fs_lookup fs jsoncPath = None \<longrightarrow>
            GetContext lib m name fs = Inl NotFound)"
  unfolding assms(2,3)
  using GetContext_json [OF assms(1), of fs m _ lib] GetContext_jsonc [OF assms(1), of fs m _ lib]
    GetContext_absent [OF assms(1), of fs m lib]
  by simp

text \<open>
  With \<open>work.json\<close> and \<open>work.jsonc\<close> both present, the document of \<open>work.json\<close>
  is returned; \<open>ghost\<close> has no file and is not found.
\<close>

theorem GetContext_resolution_order_witness:
  "GetContext sample_json example_manager ''work'' both_formats_fs =
     Inr \<lparr>Name = ''work'', Data = Some [(''theme'', ''dark'')],
          FilePath = ''/home/u/.config/opencode/settings/work.json''\<rparr> \<and>
   GetContext sample_json example_manager ''ghost'' both_formats_fs = Inl NotFound"
proof -
  have v: "validateContextName ''work'' = None" "validateContextName ''ghost'' = None"
    by code_simp+
  have p:
    "''/home/u/.config/opencode/settings/work.json'' =
       filepath_Join (GetContextsDir (paths example_manager) (useProject example_manager))
         (''work'' @ ''.json'')"
    "''/home/u/.config/opencode/settings/ghost.json'' =
       filepath_Join (GetContextsDir (paths example_manager) (useProject example_manager))
         (''ghost'' @ ''.json'')"
    by code_simp+
  have l:
    "fs_lookup both_formats_fs ''/home/u/.config/opencode/settings/work.json''
       = Some (File (sample_indent [(''theme'', ''dark'')]))"
    "fs_lookup both_formats_fs ''/home/u/.config/opencode/settings/ghost.json'' = None"
    "fs_lookup both_formats_fs
       (filepath_Join (GetContextsDir (paths example_manager) (useProject example_manager))
          (''ghost'' @ ''.jsonc'')) = None"
    by code_simp+
  have u: "Unmarshal_object sample_json (sample_indent [(''theme'', ''dark'')])
             = Some [(''theme'', ''dark'')]"
    by code_simp
  from GetContext_resolution_order [OF v(1) p(1) refl, of both_formats_fs sample_json] l(1) u
  have "GetContext sample_json example_manager ''work'' both_formats_fs =
     Inr \<lparr>Name = ''work'', Data = Some [(''theme'', ''dark'')],
          FilePath = ''/home/u/.config/opencode/settings/work.json''\<rparr>"
    by simp
  moreover
  from GetContext_resolution_order [OF v(2) p(2) refl, of both_formats_fs sample_json] l(2,3)
  have "GetContext sample_json example_manager ''ghost'' both_formats_fs = Inl NotFound"
    by blast
  ultimately show ?thesis by blast
qed

section \<open>The kinds of error an operation returns\<close>

lemma os_MkdirAll_error: "os_MkdirAll p fs = (Some e, fs') \<Longrightarrow> e = OSError \<and> fs' = fs"
  by (auto simp: os_MkdirAll_def split: option.splits node.splits)

lemma os_WriteFile_error: "os_WriteFile p c fs = (Some e, fs') \<Longrightarrow> e = OSError \<and> fs' = fs"
  by (auto simp: os_WriteFile_def split: if_splits)

lemma os_Rename_error: "os_Rename src dst fs = (Some e, fs') \<Longrightarrow> e = OSError \<and> fs' = fs"
  by (auto simp: os_Rename_def split: option.splits node.splits if_splits)


lemma os_ReadFile_error: "os_ReadFile fs p = Inl e \<Longrightarrow> e = OSError"
  by (auto simp: os_ReadFile_def split: option.splits node.splits)

lemma LoadState_error: "LoadState lib p fs = Inl e \<Longrightarrow> e = OSError"
  by (auto simp: LoadState_def dest: os_ReadFile_error split: if_splits sum.splits option.splits)

lemma SaveState_error:
  "SaveState lib s p fs = (Some e, fs') \<Longrightarrow> e = OSError \<or> e = MarshalError"
  by (auto simp: SaveState_def Let_def
      dest: os_MkdirAll_error os_WriteFile_error os_Rename_error
      split: prod.splits option.splits)

lemma GetContext_error:
  "GetContext lib m name fs = Inl e \<Longrightarrow>
     e = InvalidName \<or> e = NotFound \<or> e = OSError \<or> e = InvalidContent"
  by (auto simp: GetContext_def Let_def
      dest: validateContextName_Some os_ReadFile_error
      split: option.splits sum.splits if_splits)

lemma SwitchToContext_error:
  "SwitchToContext lib m name fs = (Some e, fs') \<Longrightarrow>
     e = InvalidName \<or> e = NotFound \<or> e = OSError \<or> e = InvalidContent \<or> e = MarshalError"
  unfolding SwitchToContext_def Let_def
  by (auto dest!: GetContext_error os_MkdirAll_error os_WriteFile_error os_Rename_error
        os_ReadFile_error LoadState_error SaveState_error
      split: sum.splits prod.splits option.splits)

lemma SwitchToContext_not_stale:
  "fst (SwitchToContext lib m name fs) \<noteq> Some StalePrevious"
  using SwitchToContext_error [of lib m name fs StalePrevious "snd (SwitchToContext lib m name fs)"]
  by (auto simp: prod_eq_iff)

section \<open>A stale previous context\<close>

text \<open>
  Claim C2 says that when \<open>SwitchToPrevious\<close> fails with \<open>StalePrevious\<close> the state
  file already holds the exchanged names. The code swaps the names on the value it loaded
  and saves nothing before the check: on \<open>stale_fs\<close> the call fails with
  \<open>StalePrevious\<close> and the state file still reads current \<open>work\<close>, previous
  \<open>ghost\<close>.
\<close>

theorem SwitchToPrevious_stale_state_counterexample:
  "fst (SwitchToPrevious sample_json example_manager stale_fs) = Some StalePrevious \<and>
   LoadState sample_json ''/home/u/.config/opencode/settings/.occtx-state.json''
       (snd (SwitchToPrevious sample_json example_manager stale_fs))
     = Inr \<lparr>Current = ''work'', Previous = ''ghost''\<rparr>"
  by code_simp

text \<open>
  Claim C2, as amended. When \<open>SwitchToPrevious\<close> fails with \<open>StalePrevious\<close>, nothing
  has been written: the file system after the call, the state file included, is the one
  before the call. The failure arises exactly from a loaded state whose non-empty previous
  name \<open>GetContext\<close> does not resolve.
\<close>

theorem SwitchToPrevious_stale_writes_nothing:
  assumes "fst (SwitchToPrevious lib m fs) = Some StalePrevious"
  shows "snd (SwitchToPrevious lib m fs) = fs \<and>
         (\<exists>state e. LoadState lib (GetStateFilePath (paths m) (useProject m)) fs = Inr state \<and>
            Previous state \<noteq> [] \<and> GetContext lib m (Previous state) fs = Inl e)"
  using assms unfolding SwitchToPrevious_def Let_def State_SwitchToPrevious_def
  by (auto dest!: LoadState_error simp: SwitchToContext_not_stale
      split: sum.splits prod.splits if_splits bool.splits)

text \<open>On \<open>stale_fs\<close> the failed call returns the very same file system.\<close>

theorem SwitchToPrevious_stale_writes_nothing_witness:
  "fst (SwitchToPrevious sample_json example_manager stale_fs) = Some StalePrevious \<and>
   snd (SwitchToPrevious sample_json example_manager stale_fs) = stale_fs"
proof -
  have h: "fst (SwitchToPrevious sample_json example_manager stale_fs) = Some StalePrevious"
    by code_simp
  from SwitchToPrevious_stale_writes_nothing [OF h] h show ?thesis by blast
qed

section \<open>Successful writes\<close>

lemma os_MkdirAll_ok:
  "os_MkdirAll p fs = (None, fs') \<Longrightarrow>
     fs_lookup fs' p = Some Dir \<and> (\<forall>c. fs_lookup fs p \<noteq> Some (File c)) \<and>
     (\<forall>q. q \<noteq> p \<longrightarrow> fs_lookup fs' q = fs_lookup fs q)"
  by (auto simp: os_MkdirAll_def split: option.splits node.splits)

lemma os_WriteFile_ok:
  "os_WriteFile p c fs = (None, fs') \<Longrightarrow>
     fs' = fs_put p (File c) fs \<and> fs_lookup fs p \<noteq> Some Dir \<and>
     fs_lookup fs (filepath_Dir p) = Some Dir"
  by (auto simp: os_WriteFile_def split: if_splits)

lemma os_Rename_ok:
  "os_Rename src dst fs = (None, fs') \<Longrightarrow> src \<noteq> dst \<Longrightarrow>
     (\<exists>c. fs_lookup fs src = Some (File c) \<and> fs' = fs_put dst (File c) (fs_del src fs)) \<and>
     fs_lookup fs dst \<noteq> Some Dir"
  by (auto simp: os_Rename_def split: option.splits node.splits if_splits)

lemma write_then_rename:
  assumes "os_WriteFile (p @ ''.tmp'') c fs1 = (None, fs2)"
    and "os_Rename (p @ ''.tmp'') p fs2 = (None, fs3)"
  shows "fs_lookup fs3 (p @ ''.tmp'') = None \<and> fs_lookup fs3 p = Some (File c) \<and>
         (\<forall>q. q \<noteq> p \<and> q \<noteq> p @ ''.tmp'' \<longrightarrow> fs_lookup fs3 q = fs_lookup fs1 q)"
proof -
  have ne: "p @ ''.tmp'' \<noteq> p" by simp
  from os_WriteFile_ok [OF assms(1)] have fs2: "fs2 = fs_put (p @ ''.tmp'') (File c) fs1"
    by simp
  from os_Rename_ok [OF assms(2) ne] fs2
  have "fs3 = fs_put p (File c) (fs_del (p @ ''.tmp'') fs2)"
    by auto
  with fs2 show ?thesis by simp
qed

lemma SaveState_ok:
  assumes "SaveState lib s p fs = (None, fs')"
  shows "\<exists>content fs1 fs2.
           MarshalIndent_State lib s = Some content \<and>
           os_MkdirAll (filepath_Dir p) fs = (None, fs1) \<and>
           os_WriteFile (p @ ''.tmp'') content fs1 = (None, fs2) \<and>
           os_Rename (p @ ''.tmp'') p fs2 = (None, fs')"
  using assms
  by (auto simp: SaveState_def Let_def split: prod.splits option.splits)

lemma CreateContextWithFormat_ok:
  assumes ok: "CreateContextWithFormat lib m name format now fs = (None, fs')"
    and cp: "contextPath = filepath_Join (GetContextsDir (paths m) (useProject m)) (name @ FileExtension format)"
  shows "\<exists>content jsonData body fs1 fs2.
           validateContextName name = None \<and>
           EnsureDirectories (paths m) (useProject m) fs = (None, fs1) \<and>
           \<not> os_Stat fs1 (filepath_Join (GetContextsDir (paths m) (useProject m)) (name @ ''.json'')) \<and>
           \<not> os_Stat fs1 (filepath_Join (GetContextsDir (paths m) (useProject m)) (name @ ''.jsonc'')) \<and>
           os_ReadFile fs1 (GetActiveConfigPath (paths m) (useProject m)) = Inr content \<and>
           Unmarshal_object lib content = Some jsonData \<and>
           MarshalIndent_object lib jsonData = Some body \<and>
           (format = FormatJSON \<or> format = FormatJSONC) \<and>
           os_WriteFile (contextPath @ ''.tmp'')
              (if format = FormatJSONC then comment_header name format now @ body else body) fs1
             = (None, fs2) \<and>
           os_Rename (contextPath @ ''.tmp'') contextPath fs2 = (None, fs')"
proof -
  note defs = CreateContextWithFormat_def Let_def GetAllFormats_def FileExtension_def
    FormatJSON_def FormatJSONC_def
  let ?dir = "GetContextsDir (paths m) (useProject m)"
  let ?act = "GetActiveConfigPath (paths m) (useProject m)"
  have v: "validateContextName name = None"
    using ok by (cases "validateContextName name") (simp_all add: defs)
  obtain r fs1 where e0: "EnsureDirectories (paths m) (useProject m) fs = (r, fs1)"
    by (cases "EnsureDirectories (paths m) (useProject m) fs")
  have "r = None"
    using ok v e0 by (cases r) (simp_all add: defs)
  with e0 have e: "EnsureDirectories (paths m) (useProject m) fs = (None, fs1)"
    by simp
  have x1: "\<not> os_Stat fs1 (filepath_Join ?dir (name @ ''.json''))"
    by (rule notI) (use ok v e in \<open>simp add: defs\<close>)
  have x2: "\<not> os_Stat fs1 (filepath_Join ?dir (name @ ''.jsonc''))"
    by (rule notI) (use ok v e in \<open>simp add: defs\<close>)
  have st: "os_Stat fs1 ?act"
    by (rule ccontr) (use ok v e x1 x2 in \<open>simp add: defs\<close>)
  obtain content where rd: "os_ReadFile fs1 ?act = Inr content"
    using ok v e x1 x2 st by (cases "os_ReadFile fs1 ?act") (simp_all add: defs)
  obtain jsonData where um: "Unmarshal_object lib content = Some jsonData"
    using ok v e x1 x2 st rd by (cases "Unmarshal_object lib content") (simp_all add: defs)
  have fmt: "format = FormatJSON \<or> format = FormatJSONC"
    by (rule ccontr) (use ok v e x1 x2 st rd um in \<open>simp add: defs\<close>)
  obtain body where mi: "MarshalIndent_object lib jsonData = Some body"
    using ok v e x1 x2 st rd um fmt
    by (cases "MarshalIndent_object lib jsonData") (auto simp add: defs)
  let ?data = "if format = FormatJSONC then comment_header name format now @ body else body"
  obtain w fs2 where w0: "os_WriteFile (contextPath @ ''.tmp'') ?data fs1 = (w, fs2)"
    by (cases "os_WriteFile (contextPath @ ''.tmp'') ?data fs1")
  have "w = None \<and> os_Rename (contextPath @ ''.tmp'') contextPath fs2 = (None, fs')"
    using ok v e x1 x2 st rd um fmt mi w0 cp
    by (cases w) (auto simp add: defs)
  with v e x1 x2 rd um mi fmt w0 show ?thesis
    by blast
qed

text \<open>
  Claim C3. A successful \<open>SaveState\<close> has written the pretty-printed state to
  \<open>path.tmp\<close> and renamed that file over \<open>path\<close>; afterwards \<open>path.tmp\<close> does not
  exist and \<open>path\<close> holds exactly the serialized state. A successful
  \<open>CreateContextWithFormat\<close> has done the same with the formatted active configuration
  (after the comment header, for JSONC) and the context path.
\<close>

theorem atomic_replace_postcondition:
  "(SaveState lib s p fs = (None, fs') \<longrightarrow>
      (\<exists>content fs1 fs2.
         MarshalIndent_State lib s = Some content \<and>
         os_MkdirAll (filepath_Dir p) fs = (None, fs1) \<and>
         os_WriteFile (p @ ''.tmp'') content fs1 = (None, fs2) \<and>
         os_Rename (p @ ''.tmp'') p fs2 = (None, fs') \<and>
         fs_lookup fs' (p @ ''.tmp'') = None \<and>
         fs_lookup fs' p = Some (File content))) \<and>
   (CreateContextWithFormat lib m name format now fs = (None, fs'') \<longrightarrow>
      (\<exists>content jsonData body fs1 fs2.
         EnsureDirectories (paths m) (useProject m) fs = (None, fs1) \<and>
         os_ReadFile fs1 (GetActiveConfigPath (paths m) (useProject m)) = Inr content \<and>
         Unmarshal_object lib content = Some jsonData \<and>
         MarshalIndent_object lib jsonData = Some body \<and>
         os_WriteFile
            (filepath_Join (GetContextsDir (paths m) (useProject m)) (name @ FileExtension format)
               @ ''.tmp'')
            (if format = FormatJSONC then comment_header name format now @ body else body) fs1
           = (None, fs2) \<and>
         os_Rename
            (filepath_Join (GetContextsDir (paths m) (useProject m)) (name @ FileExtension format)
               @ ''.tmp'')
            (filepath_Join (GetContextsDir (paths m) (useProject m)) (name @ FileExtension format))
            fs2 = (None, fs'') \<and>
         fs_lookup fs''
            (filepath_Join (GetContextsDir (paths m) (useProject m)) (name @ FileExtension format)
               @ ''.tmp'') = None \<and>
         fs_lookup fs''
            (filepath_Join (GetContextsDir (paths m) (useProject m)) (name @ FileExtension format))
           = Some (File (if format = FormatJSONC then comment_header name format now @ body
                         else body))))"
proof (intro conjI impI)
  assume "SaveState lib s p fs = (None, fs')"
  from SaveState_ok [OF this] obtain content fs1 fs2 where
    *: "MarshalIndent_State lib s = Some content"
       "os_MkdirAll (filepath_Dir p) fs = (None, fs1)"
       "os_WriteFile (p @ ''.tmp'') content fs1 = (None, fs2)"
       "os_Rename (p @ ''.tmp'') p fs2 = (None, fs')"
    by blast
  from write_then_rename [OF *(3,4)] * show
    "\<exists>content fs1 fs2.
         MarshalIndent_State lib s = Some content \<and>
         os_MkdirAll (filepath_Dir p) fs = (None, fs1) \<and>
         os_WriteFile (p @ ''.tmp'') content fs1 = (None, fs2) \<and>
         os_Rename (p @ ''.tmp'') p fs2 = (None, fs') \<and>
         fs_lookup fs' (p @ ''.tmp'') = None \<and>
         fs_lookup fs' p = Some (File content)"
    by - (rule exI [of _ content], rule exI [of _ fs1], rule exI [of _ fs2], simp)
next
  let ?cp = "filepath_Join (GetContextsDir (paths m) (useProject m)) (name @ FileExtension format)"
  assume "CreateContextWithFormat lib m name format now fs = (None, fs'')"
  from CreateContextWithFormat_ok [OF this refl] obtain content jsonData body fs1 fs2 where
    *: "EnsureDirectories (paths m) (useProject m) fs = (None, fs1)"
       "os_ReadFile fs1 (GetActiveConfigPath (paths m) (useProject m)) = Inr content"
       "Unmarshal_object lib content = Some jsonData"
       "MarshalIndent_object lib jsonData = Some body"
       "os_WriteFile (?cp @ ''.tmp'')
          (if format = FormatJSONC then comment_header name format now @ body else body) fs1
         = (None, fs2)"
       "os_Rename (?cp @ ''.tmp'') ?cp fs2 = (None, fs'')"
    by blast
  from write_then_rename [OF *(5,6)] * show
    "\<exists>content jsonData body fs1 fs2.
         EnsureDirectories (paths m) (useProject m) fs = (None, fs1) \<and>
         os_ReadFile fs1 (GetActiveConfigPath (paths m) (useProject m)) = Inr content \<and>
         Unmarshal_object lib content = Some jsonData \<and>
         MarshalIndent_object lib jsonData = Some body \<and>
         os_WriteFile (?cp @ ''.tmp'')
            (if format = FormatJSONC then comment_header name format now @ body else body) fs1
           = (None, fs2) \<and>
         os_Rename (?cp @ ''.tmp'') ?cp fs2 = (None, fs'') \<and>
         fs_lookup fs'' (?cp @ ''.tmp'') = None \<and>
         fs_lookup fs'' ?cp
           = Some (File (if format = FormatJSONC then comment_header name format now @ body
                         else body))"
    by - (rule exI [of _ content], rule exI [of _ jsonData], rule exI [of _ body],
        rule exI [of _ fs1], rule exI [of _ fs2], simp)
qed

text \<open>
  Saving a state and creating the JSONC context \<open>backup\<close> on the example installation.
\<close>

theorem atomic_replace_postcondition_witness:
  "fs_lookup
     (snd (SaveState sample_json \<lparr>Current = ''home'', Previous = ''work''\<rparr>
             ''/home/u/.config/opencode/settings/.occtx-state.json'' example_fs))
     (''/home/u/.config/opencode/settings/.occtx-state.json'' @ ''.tmp'') = None \<and>
   fs_lookup
     (snd (SaveState sample_json \<lparr>Current = ''home'', Previous = ''work''\<rparr>
             ''/home/u/.config/opencode/settings/.occtx-state.json'' example_fs))
     ''/home/u/.config/opencode/settings/.occtx-state.json''
     = Some (File (sample_indent [(''current'', ''home''), (''previous'', ''work'')])) \<and>
   fs_lookup
     (snd (CreateContextWithFormat sample_json example_manager ''backup'' FormatJSONC
             ''2025-01-01 00:00:00'' example_fs))
     (''/home/u/.config/opencode/settings/backup.jsonc'' @ ''.tmp'') = None \<and>
   fs_lookup
     (snd (CreateContextWithFormat sample_json example_manager ''backup'' FormatJSONC
             ''2025-01-01 00:00:00'' example_fs))
     ''/home/u/.config/opencode/settings/backup.jsonc''
     = Some (File (comment_header ''backup'' FormatJSONC ''2025-01-01 00:00:00''
                     @ sample_indent [(''theme'', ''dark'')]))"
proof -
  let ?st = "''/home/u/.config/opencode/settings/.occtx-state.json''"
  let ?s = "\<lparr>Current = ''home'', Previous = ''work''\<rparr>"
  let ?save = "SaveState sample_json ?s ?st example_fs"
  let ?create = "CreateContextWithFormat sample_json example_manager ''backup'' FormatJSONC
             ''2025-01-01 00:00:00'' example_fs"
  have "fst ?save = None" by code_simp
  then have h1: "?save = (None, snd ?save)"
    by (simp add: prod_eq_iff)
  have "fst ?create = None" by code_simp
  then have h2: "?create = (None, snd ?create)"
    by (simp add: prod_eq_iff)
  have m: "MarshalIndent_State sample_json ?s
             = Some (sample_indent [(''current'', ''home''), (''previous'', ''work'')])"
    by code_simp
  have p: "filepath_Join (GetContextsDir (paths example_manager) (useProject example_manager))
             (''backup'' @ FileExtension FormatJSONC)
           = ''/home/u/.config/opencode/settings/backup.jsonc''"
    by code_simp
  have e: "EnsureDirectories (paths example_manager) (useProject example_manager) example_fs
             = (None, example_fs)"
    by code_simp
  have r: "os_ReadFile example_fs
             (GetActiveConfigPath (paths example_manager) (useProject example_manager))
           = Inr (sample_compact [(''theme'', ''dark'')])"
    by code_simp
  have u: "Unmarshal_object sample_json (sample_compact [(''theme'', ''dark'')])
             = Some [(''theme'', ''dark'')]"
    by code_simp
  have b: "MarshalIndent_object sample_json [(''theme'', ''dark'')]
             = Some (sample_indent [(''theme'', ''dark'')])"
    by code_simp
  note T = atomic_replace_postcondition [of sample_json ?s ?st example_fs "snd ?save"
      example_manager "''backup''" FormatJSONC "''2025-01-01 00:00:00''" "snd ?create"]
  from T h1 obtain content where
    "MarshalIndent_State sample_json ?s = Some content"
    "fs_lookup (snd ?save) (?st @ ''.tmp'') = None"
    "fs_lookup (snd ?save) ?st = Some (File content)"
    by blast
  with m have save:
    "fs_lookup (snd ?save) (?st @ ''.tmp'') = None \<and>
     fs_lookup (snd ?save) ?st
       = Some (File (sample_indent [(''current'', ''home''), (''previous'', ''work'')]))"
    by simp
  from T h2 obtain content jsonData body fs1 where c:
    "EnsureDirectories (paths example_manager) (useProject example_manager) example_fs
       = (None, fs1)"
    "os_ReadFile fs1 (GetActiveConfigPath (paths example_manager) (useProject example_manager))
       = Inr content"
    "Unmarshal_object sample_json content = Some jsonData"
    "MarshalIndent_object sample_json jsonData = Some body"
    "fs_lookup (snd ?create)
       (filepath_Join (GetContextsDir (paths example_manager) (useProject example_manager))
          (''backup'' @ FileExtension FormatJSONC) @ ''.tmp'') = None"
    "fs_lookup (snd ?create)
       (filepath_Join (GetContextsDir (paths example_manager) (useProject example_manager))
          (''backup'' @ FileExtension FormatJSONC))
       = Some (File (if FormatJSONC = FormatJSONC
                     then comment_header ''backup'' FormatJSONC ''2025-01-01 00:00:00'' @ body
                     else body))"
    by blast
  from c(1) e have "fs1 = example_fs" by simp
  with c(2) r have "content = sample_compact [(''theme'', ''dark'')]" by simp
  with c(3) u have "jsonData = [(''theme'', ''dark'')]" by simp
  with c(4) b have "body = sample_indent [(''theme'', ''dark'')]" by simp
  with c(5,6) have create:
    "fs_lookup (snd ?create) (''/home/u/.config/opencode/settings/backup.jsonc'' @ ''.tmp'') = None \<and>
     fs_lookup (snd ?create) ''/home/u/.config/opencode/settings/backup.jsonc''
       = Some (File (comment_header ''backup'' FormatJSONC ''2025-01-01 00:00:00''
                       @ sample_indent [(''theme'', ''dark'')]))"
    unfolding p by simp
  from save create show ?thesis by blast
qed

section \<open>Deleting a context\<close>

lemma GetContext_ok:
  assumes "GetContext lib m name fs = Inr ctx"
  shows "validateContextName name = None \<and> Name ctx = name \<and>
         (\<exists>content. fs_lookup fs (FilePath ctx) = Some (File content)) \<and>
         (FilePath ctx = filepath_Join (GetContextsDir (paths m) (useProject m)) (name @ ''.json'') \<or>
          FilePath ctx = filepath_Join (GetContextsDir (paths m) (useProject m)) (name @ ''.jsonc'') \<and>
          fs_lookup fs (filepath_Join (GetContextsDir (paths m) (useProject m)) (name @ ''.json'')) = None)"
  using assms
  by (auto simp: GetContext_def Let_def os_Stat_def os_ReadFile_def
      split: option.splits if_splits sum.splits node.splits)




section \<open>Listing the contexts\<close>










section \<open>What an operation leaves untouched\<close>

lemma os_MkdirAll_frame:
  "os_MkdirAll p fs = (r, fs') \<Longrightarrow> q \<noteq> p \<Longrightarrow> fs_lookup fs' q = fs_lookup fs q"
  by (auto simp: os_MkdirAll_def split: option.splits node.splits)

lemma os_WriteFile_frame:
  "os_WriteFile p c fs = (r, fs') \<Longrightarrow> q \<noteq> p \<Longrightarrow> fs_lookup fs' q = fs_lookup fs q"
  by (auto simp: os_WriteFile_def split: if_splits)

lemma os_Rename_frame:
  "os_Rename src dst fs = (r, fs') \<Longrightarrow> q \<noteq> src \<Longrightarrow> q \<noteq> dst \<Longrightarrow>
     fs_lookup fs' q = fs_lookup fs q"
  by (auto simp: os_Rename_def split: option.splits node.splits if_splits)

lemma SaveState_frame:
  assumes "SaveState lib s p fs = (r, fs')"
    and "q \<noteq> p" and "q \<noteq> p @ ''.tmp''" and "q \<noteq> filepath_Dir p"
  shows "fs_lookup fs' q = fs_lookup fs q"
proof -
  obtain r1 fs1 where m: "os_MkdirAll (filepath_Dir p) fs = (r1, fs1)"
    by (cases "os_MkdirAll (filepath_Dir p) fs")
  note f1 = os_MkdirAll_frame [OF m assms(4)]
  show ?thesis
  proof (cases "r1 = None \<and> MarshalIndent_State lib s \<noteq> None")
    case False
    with assms(1) m have "fs' = fs1"
      by (cases r1) (auto simp: SaveState_def)
    with f1 show ?thesis by simp
  next
    case True
    then obtain content where c: "MarshalIndent_State lib s = Some content" and r1: "r1 = None"
      by auto
    obtain r2 fs2 where w: "os_WriteFile (p @ ''.tmp'') content fs1 = (r2, fs2)"
      by (cases "os_WriteFile (p @ ''.tmp'') content fs1")
    note f2 = os_WriteFile_frame [OF w assms(3)]
    show ?thesis
    proof (cases r2)
      case (Some e)
      with assms(1) m r1 c w have "fs' = fs2"
        by (simp add: SaveState_def)
      with f1 f2 show ?thesis by simp
    next
      case None
      with assms(1) m r1 c w have "os_Rename (p @ ''.tmp'') p fs2 = (r, fs')"
        by (simp add: SaveState_def)
      from os_Rename_frame [OF this assms(3) assms(2)] f1 f2 show ?thesis by simp
    qed
  qed
qed

section \<open>The layout of the paths\<close>

lemma filepath_Dir_Join:
  assumes "CHR ''/'' \<notin> set f" and "dir \<noteq> []"
  shows "filepath_Dir (dir @ ''/'' @ f) = dir"
proof -
  have "dropWhile (\<lambda>c. c \<noteq> CHR ''/'') (rev f @ CHR ''/'' # rev dir) = CHR ''/'' # rev dir"
    using assms(1) by (subst dropWhile_append2) auto
  with assms(2) show ?thesis
    by (simp add: filepath_Dir_def)
qed

lemma NewManager_state_path:
  assumes "m = NewManager homeDir currentDir up"
  shows "GetStateFilePath (paths m) (useProject m)
           = GetContextsDir (paths m) (useProject m) @ ''/.occtx-state.json''"
    and "GetContextsDir (paths m) (useProject m) \<noteq> []"
    and "filepath_Dir (GetStateFilePath (paths m) (useProject m))
           = GetContextsDir (paths m) (useProject m)"
proof -
  have "GetStateFilePath (paths m) (useProject m)
          = filepath_Join (GetContextsDir (paths m) (useProject m)) StateFileName"
    using assms
    by (simp add: NewManager_def NewPaths_def GetStateFilePath_def GetContextsDir_def Let_def)
  with NewManager_contexts_dir(3) [OF assms]
  show s: "GetStateFilePath (paths m) (useProject m)
           = GetContextsDir (paths m) (useProject m) @ ''/.occtx-state.json''"
    by (simp add: StateFileName_def)
  show d: "GetContextsDir (paths m) (useProject m) \<noteq> []"
    by (rule NewManager_contexts_dir(1) [OF assms])
  from filepath_Dir_Join [of "''.occtx-state.json''", OF _ d] s
  show "filepath_Dir (GetStateFilePath (paths m) (useProject m))
           = GetContextsDir (paths m) (useProject m)"
    by simp
qed

lemma state_path_not_context:
  assumes "validateContextName name = None"
  shows "dir @ ''/'' @ name @ ext \<noteq> dir @ ''/.occtx-state.json''"
    and "dir @ ''/'' @ name @ ext \<noteq> dir @ ''/.occtx-state.json'' @ ''.tmp''"
    and "dir @ ''/'' @ name @ ext \<noteq> dir"
  using assms
  by (cases name; simp add: validateContextName_None_iff)+

section \<open>Renaming a JSONC context\<close>

lemma sample_json_rejects_comment:
  assumes "HasPrefix c ''//''"
  shows "Unmarshal_object sample_json c = None"
proof -
  from assms obtain r where c: "c = CHR ''/'' # CHR ''/'' # r"
    by (auto simp: HasPrefix_def prefix_def)
  have "sample_indent d \<noteq> c" "sample_compact d \<noteq> c" for d
    by (simp_all add: sample_indent_def sample_compact_def c)
  then show ?thesis
    by (simp add: sample_json_def find_None_iff)
qed

text \<open>
  Claim C10. \<open>RenameContext\<close> always renames to \<open>newName.json\<close>. For a context that
  is stored as \<open>oldName.jsonc\<close> (no \<open>oldName.json\<close> exists, the names are valid, the
  context reads, and no \<open>newName.json\<close> exists) the file \<open>oldName.jsonc\<close> is gone
  after the call and \<open>newName.json\<close> holds its content unchanged, whether or not the
  update of the state file that follows succeeds. \<open>GetContext\<close> then decodes that
  content without removing comment lines; when the content starts with \<open>//\<close>, which no
  JSON decoder accepts, it fails with \<open>InvalidContent\<close>.
\<close>

theorem RenameContext_jsonc_to_json:
  assumes m: "m = NewManager homeDir currentDir up"
    and dir: "dir = GetContextsDir (paths m) (useProject m)"
    and vo: "validateContextName oldName = None"
    and vn: "validateContextName newName = None"
    and nojson: "fs_lookup fs (filepath_Join dir (oldName @ ''.json'')) = None"
    and jsonc: "fs_lookup fs (filepath_Join dir (oldName @ ''.jsonc'')) = Some (File content)"
    and parses: "Unmarshal_object lib (strip_comment_lines content) = Some d"
    and free: "fs_lookup fs (filepath_Join dir (newName @ ''.json'')) = None"
  shows "\<exists>r fs'. RenameContext lib m oldName newName fs = (r, fs') \<and>
           (r = None \<or> r = Some OSError \<or> r = Some MarshalError) \<and>
           fs_lookup fs' (filepath_Join dir (newName @ ''.json'')) = Some (File content) \<and>
           fs_lookup fs' (filepath_Join dir (oldName @ ''.jsonc'')) = None \<and>
           GetContext lib m newName fs' =
             (case Unmarshal_object lib content of
                None \<Rightarrow> Inl InvalidContent
              | Some d' \<Rightarrow> Inr \<lparr>Name = newName, Data = Some d',
                                FilePath = filepath_Join dir (newName @ ''.json'')\<rparr>) \<and>
           (HasPrefix content ''//'' \<and> (\<forall>c. HasPrefix c ''//'' \<longrightarrow> Unmarshal_object lib c = None)
              \<longrightarrow> GetContext lib m newName fs' = Inl InvalidContent)"
proof -
  let ?old = "filepath_Join dir (oldName @ ''.jsonc'')"
  let ?new = "filepath_Join dir (newName @ ''.json'')"
  let ?S = "GetStateFilePath (paths m) (useProject m)"
  define fs1 where "fs1 = fs_put ?new (File content) (fs_del ?old fs)"
  have ne: "?old \<noteq> ?new"
  proof
    assume "?old = ?new"
    then have "last ?old = last ?new" by simp
    then show False by (simp add: last_filepath_Join)
  qed
  from GetContext_jsonc [where fs = fs and lib = lib and m = m, OF vo] nojson jsonc parses dir
  have g: "GetContext lib m oldName fs = Inr \<lparr>Name = oldName, Data = Some d, FilePath = ?old\<rparr>"
    by simp
  from jsonc free ne have rn: "os_Rename ?old ?new fs = (None, fs1)"
    by (simp add: os_Rename_def fs1_def)
  have l1: "fs_lookup fs1 ?new = Some (File content)" "fs_lookup fs1 ?old = None"
    using ne by (simp_all add: fs1_def)
  obtain r fs' where res: "RenameContext lib m oldName newName fs = (r, fs')"
    by (cases "RenameContext lib m oldName newName fs")
  note S = NewManager_state_path [OF m]
  have sp: "?new \<noteq> ?S" "?new \<noteq> ?S @ ''.tmp''" "?new \<noteq> filepath_Dir ?S"
    "?old \<noteq> ?S" "?old \<noteq> ?S @ ''.tmp''" "?old \<noteq> filepath_Dir ?S"
    using state_path_not_context [OF vn, of dir "''.json''"]
      state_path_not_context [OF vo, of dir "''.jsonc''"] S dir
    by (simp_all add: NewManager_contexts_dir(3) [OF m])
  have step: "(r, fs') =
      (case LoadState lib ?S fs1 of
         Inl e \<Rightarrow> (Some e, fs1)
       | Inr state \<Rightarrow>
           (let state1 = (if Current state = oldName then state\<lparr>Current := newName\<rparr> else state);
                state2 = (if Previous state1 = oldName then state1\<lparr>Previous := newName\<rparr> else state1);
                updated = (Current state = oldName \<or> Previous state1 = oldName)
            in if updated then SaveState lib state2 ?S fs1 else (None, fs1)))"
    using res g rn free vo vn dir
    by (simp add: RenameContext_def os_Stat_def Let_def)
  have frame: "fs_lookup fs' ?new = fs_lookup fs1 ?new \<and> fs_lookup fs' ?old = fs_lookup fs1 ?old \<and>
      (r = None \<or> r = Some OSError \<or> r = Some MarshalError)"
  proof (cases "LoadState lib ?S fs1")
    case (Inl e)
    with step LoadState_error [OF Inl] show ?thesis by simp
  next
    case (Inr state)
    show ?thesis
    proof (cases "Current state = oldName \<or> Previous state = oldName")
      case False
      with step Inr show ?thesis by (simp add: Let_def)
    next
      case True
      with step Inr obtain s2 where sv: "SaveState lib s2 ?S fs1 = (r, fs')"
        by (auto simp add: Let_def split: if_splits)
      have "r = None \<or> r = Some OSError \<or> r = Some MarshalError"
        using SaveState_error [of lib s2 ?S fs1 _ fs'] sv by (cases r) auto
      with SaveState_frame [OF sv sp(1,2,3)] SaveState_frame [OF sv sp(4,5,6)]
      show ?thesis by simp
    qed
  qed
  with l1 have l': "fs_lookup fs' ?new = Some (File content)" "fs_lookup fs' ?old = None"
    and r: "r = None \<or> r = Some OSError \<or> r = Some MarshalError"
    by simp_all
  from GetContext_json [where fs = fs' and lib = lib and m = m, OF vn] l'(1)
  have get: "GetContext lib m newName fs' =
             (case Unmarshal_object lib content of
                None \<Rightarrow> Inl InvalidContent
              | Some d' \<Rightarrow> Inr \<lparr>Name = newName, Data = Some d', FilePath = ?new\<rparr>)"
    unfolding dir by simp
  then have "HasPrefix content ''//'' \<and> (\<forall>c. HasPrefix c ''//'' \<longrightarrow> Unmarshal_object lib c = None)
              \<longrightarrow> GetContext lib m newName fs' = Inl InvalidContent"
    by simp
  with res r l' get show ?thesis
    by - (rule exI [of _ r], rule exI [of _ fs'], simp)
qed

text \<open>
  Renaming the JSONC context \<open>notes\<close> to \<open>memo\<close>: the file becomes \<open>memo.json\<close>,
  with the comment header still in it, and \<open>memo\<close> can no longer be read.
\<close>

theorem RenameContext_jsonc_to_json_witness:
  "fs_lookup (snd (RenameContext sample_json example_manager ''notes'' ''memo'' jsonc_fs))
     ''/home/u/.config/opencode/settings/memo.json''
     = Some (File (comment_header ''notes'' FormatJSONC ''2025-01-01 00:00:00''
                     @ sample_indent [(''theme'', ''dark'')])) \<and>
   fs_lookup (snd (RenameContext sample_json example_manager ''notes'' ''memo'' jsonc_fs))
     ''/home/u/.config/opencode/settings/notes.jsonc'' = None \<and>
   GetContext sample_json example_manager ''memo''
     (snd (RenameContext sample_json example_manager ''notes'' ''memo'' jsonc_fs))
     = Inl InvalidContent"
proof -
  let ?content = "comment_header ''notes'' FormatJSONC ''2025-01-01 00:00:00''
                     @ sample_indent [(''theme'', ''dark'')]"
  have d: "''/home/u/.config/opencode/settings''
             = GetContextsDir (paths example_manager) (useProject example_manager)"
    by code_simp
  have v: "validateContextName ''notes'' = None" "validateContextName ''memo'' = None"
    by code_simp+
  have l: "fs_lookup jsonc_fs (filepath_Join ''/home/u/.config/opencode/settings'' (''notes'' @ ''.json''))
             = None"
    "fs_lookup jsonc_fs (filepath_Join ''/home/u/.config/opencode/settings'' (''notes'' @ ''.jsonc''))
             = Some (File ?content)"
    "fs_lookup jsonc_fs (filepath_Join ''/home/u/.config/opencode/settings'' (''memo'' @ ''.json''))
             = None"
    by code_simp+
  have u: "Unmarshal_object sample_json (strip_comment_lines ?content) = Some [(''theme'', ''dark'')]"
    by code_simp
  have c: "HasPrefix ?content ''//''"
    by code_simp
  have p: "filepath_Join ''/home/u/.config/opencode/settings'' (''memo'' @ ''.json'')
             = ''/home/u/.config/opencode/settings/memo.json''"
    "filepath_Join ''/home/u/.config/opencode/settings'' (''notes'' @ ''.jsonc'')
             = ''/home/u/.config/opencode/settings/notes.jsonc''"
    by code_simp+
  from RenameContext_jsonc_to_json [OF example_manager_def d v l(1,2) u l(3)]
    c sample_json_rejects_comment
  show ?thesis
    unfolding p by auto
qed

section \<open>When the writes succeed\<close>

lemma os_MkdirAll_success:
  assumes "\<forall>c. fs_lookup fs p \<noteq> Some (File c)"
  shows "\<exists>fs'. os_MkdirAll p fs = (None, fs') \<and> fs_lookup fs' = (fs_lookup fs)(p \<mapsto> Dir)"
  using assms
  by (cases "fs_lookup fs p") (auto simp: os_MkdirAll_def fun_eq_iff split: node.splits)

lemma os_WriteFile_success:
  assumes "fs_lookup fs p \<noteq> Some Dir" and "fs_lookup fs (filepath_Dir p) = Some Dir"
  shows "\<exists>fs'. os_WriteFile p c fs = (None, fs') \<and> fs_lookup fs' = (fs_lookup fs)(p \<mapsto> File c)"
  using assms by (auto simp: os_WriteFile_def fun_eq_iff)

lemma os_Rename_success:
  assumes "fs_lookup fs src = Some (File c)" and "src \<noteq> dst" and "fs_lookup fs dst \<noteq> Some Dir"
  shows "\<exists>fs'. os_Rename src dst fs = (None, fs') \<and>
           fs_lookup fs' = (fs_lookup fs)(src := None, dst \<mapsto> File c)"
  using assms by (auto simp: os_Rename_def fun_eq_iff)

lemma filepath_Dir_tmp: "filepath_Dir (p @ ''.tmp'') = filepath_Dir p"
proof (cases "CHR ''/'' \<in> set p")
  case False
  then show ?thesis by (simp add: filepath_Dir_def)
next
  case True
  then have "dropWhile (\<lambda>c. c \<noteq> CHR ''/'') (''pmt.'' @ rev p)
               = dropWhile (\<lambda>c. c \<noteq> CHR ''/'') (rev p)"
    by simp
  with True show ?thesis by (simp add: filepath_Dir_def)
qed

lemma write_rename_success:
  assumes "fs_lookup fs (p @ ''.tmp'') \<noteq> Some Dir" and "fs_lookup fs p \<noteq> Some Dir"
    and "fs_lookup fs (filepath_Dir p) = Some Dir"
  shows "\<exists>fs2 fs3. os_WriteFile (p @ ''.tmp'') c fs = (None, fs2) \<and>
           os_Rename (p @ ''.tmp'') p fs2 = (None, fs3) \<and>
           fs_lookup fs3 = (fs_lookup fs)(p @ ''.tmp'' := None, p \<mapsto> File c)"
proof -
  from os_WriteFile_success [of fs "p @ ''.tmp''" c] assms(1,3) obtain fs2 where
    w: "os_WriteFile (p @ ''.tmp'') c fs = (None, fs2)"
    and l2: "fs_lookup fs2 = (fs_lookup fs)(p @ ''.tmp'' \<mapsto> File c)"
    by (auto simp: filepath_Dir_tmp)
  from os_Rename_success [of fs2 "p @ ''.tmp''" c p] l2 assms(2) obtain fs3 where
    r: "os_Rename (p @ ''.tmp'') p fs2 = (None, fs3)"
    and l3: "fs_lookup fs3 = (fs_lookup fs2)(p @ ''.tmp'' := None, p \<mapsto> File c)"
    by auto
  from l2 l3 have "fs_lookup fs3 = (fs_lookup fs)(p @ ''.tmp'' := None, p \<mapsto> File c)"
    by (auto simp: fun_eq_iff)
  with w r show ?thesis by blast
qed

lemma SaveState_success:
  assumes "\<forall>c. fs_lookup fs (filepath_Dir p) \<noteq> Some (File c)"
    and "fs_lookup fs (p @ ''.tmp'') \<noteq> Some Dir" and "fs_lookup fs p \<noteq> Some Dir"
    and "filepath_Dir p \<noteq> p" and "filepath_Dir p \<noteq> p @ ''.tmp''"
    and "MarshalIndent_State lib s = Some content"
  shows "\<exists>fs'. SaveState lib s p fs = (None, fs') \<and>
           fs_lookup fs' = (fs_lookup fs)(filepath_Dir p \<mapsto> Dir, p @ ''.tmp'' := None,
                                          p \<mapsto> File content)"
proof -
  from os_MkdirAll_success [OF assms(1)] obtain fs1 where
    m: "os_MkdirAll (filepath_Dir p) fs = (None, fs1)"
    and l1: "fs_lookup fs1 = (fs_lookup fs)(filepath_Dir p \<mapsto> Dir)"
    by blast
  from write_rename_success [of fs1 p content] l1 assms(2-5) obtain fs2 fs3 where
    w: "os_WriteFile (p @ ''.tmp'') content fs1 = (None, fs2)"
    and r: "os_Rename (p @ ''.tmp'') p fs2 = (None, fs3)"
    and l3: "fs_lookup fs3 = (fs_lookup fs1)(p @ ''.tmp'' := None, p \<mapsto> File content)"
    by auto
  from m w r assms(6) have "SaveState lib s p fs = (None, fs3)"
    by (simp add: SaveState_def)
  with l1 l3 show ?thesis by simp
qed

lemma LoadState_cong:
  "fs_lookup fs' p = fs_lookup fs p \<Longrightarrow> LoadState lib p fs' = LoadState lib p fs"
  by (simp add: LoadState_def os_Stat_def os_ReadFile_def)

lemma GetContext_cong:
  assumes "fs_lookup fs' (filepath_Join (GetContextsDir (paths m) (useProject m)) (name @ ''.json''))
             = fs_lookup fs (filepath_Join (GetContextsDir (paths m) (useProject m)) (name @ ''.json''))"
    and "fs_lookup fs' (filepath_Join (GetContextsDir (paths m) (useProject m)) (name @ ''.jsonc''))
             = fs_lookup fs (filepath_Join (GetContextsDir (paths m) (useProject m)) (name @ ''.jsonc''))"
  shows "GetContext lib m name fs' = GetContext lib m name fs"
  using assms
  by (cases "validateContextName name")
     (simp_all add: GetContext_def os_Stat_def os_ReadFile_def Let_def)

lemma LoadState_file:
  "fs_lookup fs p = Some (File content) \<Longrightarrow> Unmarshal_State lib content = Some s \<Longrightarrow>
     LoadState lib p fs = Inr s"
  by (simp add: LoadState_def os_Stat_def os_ReadFile_def)

lemma LoadState_not_Dir: "LoadState lib p fs = Inr s \<Longrightarrow> fs_lookup fs p \<noteq> Some Dir"
  by (auto simp: LoadState_def os_Stat_def os_ReadFile_def split: if_splits)

lemma filepath_Dir_root:
  assumes "CHR ''/'' \<notin> set f"
  shows "filepath_Dir (CHR ''/'' # f) = ''/''"
proof -
  have "dropWhile (\<lambda>c. c \<noteq> CHR ''/'') (rev f @ [CHR ''/'']) = [CHR ''/'']"
    using assms by (subst dropWhile_append2) auto
  then show ?thesis
    by (simp add: filepath_Dir_def)
qed

lemma NewManager_layout:
  assumes m: "m = NewManager h c up"
    and D: "D = GetContextsDir (paths m) (useProject m)"
    and S: "S = GetStateFilePath (paths m) (useProject m)"
    and A: "A = GetActiveConfigPath (paths m) (useProject m)"
  shows "S = D @ ''/.occtx-state.json''"
    and "filepath_Dir S = D"
    and "distinct [S, S @ ''.tmp'', A, A @ ''.tmp'', D, filepath_Dir A]"
    and "\<And>x. D @ ''/'' @ x \<notin> {A, A @ ''.tmp'', D, filepath_Dir A}"
proof -
  note defs = NewManager_def NewPaths_def GetContextsDir_def GetActiveConfigPath_def Let_def
  from NewManager_state_path [OF m] D S show s: "S = D @ ''/.occtx-state.json''"
    and ds: "filepath_Dir S = D"
    by simp_all
  have both: "distinct [S, S @ ''.tmp'', A, A @ ''.tmp'', D, filepath_Dir A] \<and>
              (\<forall>x. D @ ''/'' @ x \<notin> {A, A @ ''.tmp'', D, filepath_Dir A})"
  proof (cases up)
    case False
    define B where "B = filepath_Join h OpenCodeConfigDir"
    have B: "B \<noteq> []" "last B \<noteq> CHR ''/''"
      by (simp_all add: B_def filepath_Join_not_Nil last_filepath_Join OpenCodeConfigDir_def)
    from False m D A have "D = filepath_Join B SettingsSubDir"
      "A = filepath_Join B ActiveConfigFileName"
      by (simp_all add: defs B_def)
    with B have eD: "D = B @ ''/settings''" and eA: "A = B @ ''/opencode.json''"
      by (simp_all add: filepath_Join_plain SettingsSubDir_def ActiveConfigFileName_def)
    have "filepath_Dir (B @ ''/'' @ ''opencode.json'') = B"
      using B(1) by (intro filepath_Dir_Join) simp_all
    with eA have dA: "filepath_Dir A = B" by simp
    show ?thesis
      unfolding s dA unfolding eD eA by simp
  next
    case True
    define P where "P = (if c = [] then [] else if last c = CHR ''/'' then c else c @ ''/'')"
    have J: "filepath_Join c e = P @ e" for e
      by (simp add: filepath_Join_def P_def)
    have PB: "P @ ''opencode'' \<noteq> []" "last (P @ ''opencode'') \<noteq> CHR ''/''"
      by simp_all
    from True m D A have "D = filepath_Join (P @ ''opencode'') SettingsSubDir"
      "A = P @ ''opencode.json''"
      by (simp_all add: defs J ProjectConfigDirName_def ProjectConfigFileName_def)
    with filepath_Join_plain [OF PB] have eD: "D = P @ ''opencode/settings''"
      and eA: "A = P @ ''opencode.json''"
      by (simp_all add: SettingsSubDir_def)
    show ?thesis
    proof (cases "P = []")
      case True
      with eA have dA: "filepath_Dir A = ''.''"
        by (simp add: filepath_Dir_def)
      show ?thesis
        unfolding s dA unfolding eD eA using True by simp
    next
      case False
      then have "last P = CHR ''/''"
        by (auto simp: P_def split: if_splits)
      with False obtain q where q: "P = q @ ''/''"
        by (metis append_butlast_last_id)
      show ?thesis
      proof (cases "q = []")
        case True
        with q eA have "A = CHR ''/'' # ''opencode.json''" by simp
        with filepath_Dir_root [of "''opencode.json''"] have dA: "filepath_Dir A = ''/''"
          by simp
        show ?thesis
          unfolding s dA unfolding eD eA q using True by simp
      next
        case False
        then have "filepath_Dir (q @ ''/'' @ ''opencode.json'') = q"
          by (intro filepath_Dir_Join) simp_all
        with q eA have dA: "filepath_Dir A = q" by simp
        show ?thesis
          unfolding s dA unfolding eD eA q using False by (cases q) simp_all
      qed
    qed
  qed
  from both show "distinct [S, S @ ''.tmp'', A, A @ ''.tmp'', D, filepath_Dir A]" by blast
  from both show "D @ ''/'' @ x \<notin> {A, A @ ''.tmp'', D, filepath_Dir A}" for x by blast
qed

lemma SwitchToContext_success:
  assumes m: "m = NewManager h c up"
    and D: "D = GetContextsDir (paths m) (useProject m)"
    and S: "S = GetStateFilePath (paths m) (useProject m)"
    and A: "A = GetActiveConfigPath (paths m) (useProject m)"
    and g: "GetContext lib m name fs = Inr ctx"
    and io: "\<forall>c. fs_lookup fs (filepath_Dir A) \<noteq> Some (File c)"
      "fs_lookup fs (A @ ''.tmp'') \<noteq> Some Dir" "fs_lookup fs A \<noteq> Some Dir"
      "\<forall>c. fs_lookup fs D \<noteq> Some (File c)" "fs_lookup fs (S @ ''.tmp'') \<noteq> Some Dir"
    and st: "LoadState lib S fs = Inr state"
    and enc: "MarshalIndent_State lib (SetCurrent state name) = Some content"
  shows "\<exists>fs' data. SwitchToContext lib m name fs = (None, fs') \<and>
           fs_lookup fs (FilePath ctx) = Some (File data) \<and>
           fs_lookup fs' = (fs_lookup fs)(filepath_Dir A \<mapsto> Dir, A @ ''.tmp'' := None,
              A \<mapsto> File data, D \<mapsto> Dir, S @ ''.tmp'' := None, S \<mapsto> File content)"
proof -
  note L = NewManager_layout [OF m D S A]
  from GetContext_ok [OF g] D obtain data x where
    v: "validateContextName name = None"
    and f: "fs_lookup fs (FilePath ctx) = Some (File data)"
    and fp: "FilePath ctx = D @ ''/'' @ name @ x"
    by (auto simp: NewManager_contexts_dir(3) [OF m])
  from L(4) [of "name @ x"] fp have n1: "FilePath ctx \<noteq> A" "FilePath ctx \<noteq> A @ ''.tmp''"
    "FilePath ctx \<noteq> D" "FilePath ctx \<noteq> filepath_Dir A"
    by simp_all
  from state_path_not_context [OF v, of D x] fp L(1) have n2: "FilePath ctx \<noteq> S"
    "FilePath ctx \<noteq> S @ ''.tmp''"
    by simp_all
  from L(3) have d: "S \<noteq> S @ ''.tmp''" "S \<noteq> A" "S \<noteq> A @ ''.tmp''" "S \<noteq> D" "S \<noteq> filepath_Dir A"
    "S @ ''.tmp'' \<noteq> A" "S @ ''.tmp'' \<noteq> A @ ''.tmp''" "S @ ''.tmp'' \<noteq> D"
    "S @ ''.tmp'' \<noteq> filepath_Dir A" "A \<noteq> D" "A \<noteq> filepath_Dir A" "A @ ''.tmp'' \<noteq> D"
    "A @ ''.tmp'' \<noteq> filepath_Dir A" "D \<noteq> filepath_Dir A"
    by auto
  from os_MkdirAll_success [OF io(1)] obtain fs1 where
    s1: "os_MkdirAll (filepath_Dir A) fs = (None, fs1)"
    and l1: "fs_lookup fs1 = (fs_lookup fs)(filepath_Dir A \<mapsto> Dir)"
    by blast
  from l1 f n1 have s2: "os_ReadFile fs1 (FilePath ctx) = Inr data"
    by (simp add: os_ReadFile_def)
  from write_rename_success [of fs1 A data] l1 io(2,3) d obtain fs2 fs3 where
    s3: "os_WriteFile (A @ ''.tmp'') data fs1 = (None, fs2)"
    and s4: "os_Rename (A @ ''.tmp'') A fs2 = (None, fs3)"
    and l3: "fs_lookup fs3 = (fs_lookup fs1)(A @ ''.tmp'' := None, A \<mapsto> File data)"
    by auto
  from l1 l3 d have "fs_lookup fs3 S = fs_lookup fs S" by simp
  from LoadState_cong [OF this, of lib] st have s5: "LoadState lib S fs3 = Inr state" by simp
  from LoadState_not_Dir [OF st] have "fs_lookup fs S \<noteq> Some Dir" .
  with SaveState_success [of fs3 S lib "SetCurrent state name" content] l1 l3 d io(4,5) L(2) enc
  obtain fs' where s6: "SaveState lib (SetCurrent state name) S fs3 = (None, fs')"
    and l': "fs_lookup fs' = (fs_lookup fs3)(D \<mapsto> Dir, S @ ''.tmp'' := None, S \<mapsto> File content)"
    by auto
  from g s1 s2 s3 s4 s5 s6 A S have "SwitchToContext lib m name fs = (None, fs')"
    by (simp add: SwitchToContext_def)
  with f l1 l3 l' show ?thesis by simp
qed

section \<open>Switching to the previous context, twice\<close>

lemma context_path_untouched:
  assumes m: "m = NewManager h c up"
    and D: "D = GetContextsDir (paths m) (useProject m)"
    and S: "S = GetStateFilePath (paths m) (useProject m)"
    and A: "A = GetActiveConfigPath (paths m) (useProject m)"
    and v: "validateContextName name = None"
    and l: "fs_lookup fs' = (fs_lookup fs)(filepath_Dir A \<mapsto> Dir, A @ ''.tmp'' := None,
              A \<mapsto> File data, D \<mapsto> Dir, S @ ''.tmp'' := None, S \<mapsto> File content)"
  shows "fs_lookup fs' (D @ ''/'' @ name @ x) = fs_lookup fs (D @ ''/'' @ name @ x)"
proof -
  note L = NewManager_layout [OF m D S A]
  from L(4) [of "name @ x"] state_path_not_context [OF v, of D x] L(1) l
  show ?thesis by simp
qed

text \<open>
  Claim C1, as amended. Let the state file hold current \<open>A\<close> and previous \<open>B\<close>, let
  \<open>GetContext\<close> resolve both names, let no directory stand where a file is written and
  no file where a directory is made, and let the JSON functions encode the two states
  involved and decode them back. Then the manager's \<open>SwitchToPrevious\<close> succeeds and
  leaves current \<open>B\<close>, previous \<open>A\<close> and the content of \<open>B\<close> in the active
  configuration; a second call succeeds and restores current \<open>A\<close>, previous \<open>B\<close> and
  the content of \<open>A\<close>. On the state value alone, \<open>State.SwitchToPrevious\<close> applied twice
  is the identity, and returns true, for every state whose previous and current are both
  non-empty.
\<close>

theorem SwitchToPrevious_twice:
  assumes m: "m = NewManager h c up"
    and D: "D = GetContextsDir (paths m) (useProject m)"
    and S: "S = GetStateFilePath (paths m) (useProject m)"
    and A: "A = GetActiveConfigPath (paths m) (useProject m)"
    and st: "LoadState lib S fs = Inr \<lparr>Current = nameA, Previous = nameB\<rparr>"
    and ga: "GetContext lib m nameA fs = Inr ctxA"
    and gb: "GetContext lib m nameB fs = Inr ctxB"
    and io: "\<forall>c. fs_lookup fs (filepath_Dir A) \<noteq> Some (File c)"
      "fs_lookup fs (A @ ''.tmp'') \<noteq> Some Dir" "fs_lookup fs A \<noteq> Some Dir"
      "\<forall>c. fs_lookup fs D \<noteq> Some (File c)" "fs_lookup fs (S @ ''.tmp'') \<noteq> Some Dir"
    and eba: "MarshalIndent_State lib \<lparr>Current = nameB, Previous = nameA\<rparr> = Some cba"
      "Unmarshal_State lib cba = Some \<lparr>Current = nameB, Previous = nameA\<rparr>"
    and eab: "MarshalIndent_State lib \<lparr>Current = nameA, Previous = nameB\<rparr> = Some cab"
      "Unmarshal_State lib cab = Some \<lparr>Current = nameA, Previous = nameB\<rparr>"
  shows "(\<exists>fs1 fs2.
            SwitchToPrevious lib m fs = (None, fs1) \<and>
            LoadState lib S fs1 = Inr \<lparr>Current = nameB, Previous = nameA\<rparr> \<and>
            fs_lookup fs1 A = fs_lookup fs (FilePath ctxB) \<and>
            SwitchToPrevious lib m fs1 = (None, fs2) \<and>
            LoadState lib S fs2 = Inr \<lparr>Current = nameA, Previous = nameB\<rparr> \<and>
            fs_lookup fs2 A = fs_lookup fs (FilePath ctxA)) \<and>
         (\<forall>s. Current s \<noteq> [] \<and> Previous s \<noteq> [] \<longrightarrow>
            State_SwitchToPrevious (snd (State_SwitchToPrevious s)) = (True, s))"
proof
  note L = NewManager_layout [OF m D S A]
  from L(3) have d: "S \<noteq> S @ ''.tmp''" "S \<noteq> A" "S \<noteq> A @ ''.tmp''" "S \<noteq> D" "S \<noteq> filepath_Dir A"
    "S @ ''.tmp'' \<noteq> A" "S @ ''.tmp'' \<noteq> A @ ''.tmp''" "S @ ''.tmp'' \<noteq> D"
    "S @ ''.tmp'' \<noteq> filepath_Dir A" "A \<noteq> D" "A \<noteq> filepath_Dir A" "A @ ''.tmp'' \<noteq> D"
    "A @ ''.tmp'' \<noteq> filepath_Dir A" "D \<noteq> filepath_Dir A" "A \<noteq> A @ ''.tmp''"
    by auto
  from GetContext_ok [OF ga] D obtain xa where va: "validateContextName nameA = None"
    and fa: "FilePath ctxA = D @ ''/'' @ nameA @ xa"
    by (auto simp: NewManager_contexts_dir(3) [OF m])
  from GetContext_ok [OF gb] D obtain xb where vb: "validateContextName nameB = None"
    and fb: "FilePath ctxB = D @ ''/'' @ nameB @ xb"
    by (auto simp: NewManager_contexts_dir(3) [OF m])
  from va vb have ne: "nameA \<noteq> []" "nameB \<noteq> []"
    by (simp_all add: validateContextName_None_iff)
  \<comment> \<open>the first call\<close>
  from SwitchToContext_success [OF m D S A gb io st, of cba] eba(1)
  obtain fs1 dataB where c1: "SwitchToContext lib m nameB fs = (None, fs1)"
    and fB: "fs_lookup fs (FilePath ctxB) = Some (File dataB)"
    and l1: "fs_lookup fs1 = (fs_lookup fs)(filepath_Dir A \<mapsto> Dir, A @ ''.tmp'' := None,
              A \<mapsto> File dataB, D \<mapsto> Dir, S @ ''.tmp'' := None, S \<mapsto> File cba)"
    by (auto simp: SetCurrent_def)
  from st gb c1 ne S have p1: "SwitchToPrevious lib m fs = (None, fs1)"
    by (simp add: SwitchToPrevious_def State_SwitchToPrevious_def)
  from l1 have "fs_lookup fs1 S = Some (File cba)" by simp
  from LoadState_file [OF this eba(2)]
  have st1: "LoadState lib S fs1 = Inr \<lparr>Current = nameB, Previous = nameA\<rparr>" .
  from l1 d fB have a1: "fs_lookup fs1 A = fs_lookup fs (FilePath ctxB)" by simp
  \<comment> \<open>the second call\<close>
  note same = context_path_untouched [OF m D S A va l1]
  from same [of "''.json''"] same [of "''.jsonc''"] D
  have "GetContext lib m nameA fs1 = GetContext lib m nameA fs"
    by (intro GetContext_cong) (simp_all add: NewManager_contexts_dir(3) [OF m])
  with ga have ga1: "GetContext lib m nameA fs1 = Inr ctxA" by simp
  from l1 d have io1: "\<forall>c. fs_lookup fs1 (filepath_Dir A) \<noteq> Some (File c)"
    "fs_lookup fs1 (A @ ''.tmp'') \<noteq> Some Dir" "fs_lookup fs1 A \<noteq> Some Dir"
    "\<forall>c. fs_lookup fs1 D \<noteq> Some (File c)" "fs_lookup fs1 (S @ ''.tmp'') \<noteq> Some Dir"
    by simp_all
  from SwitchToContext_success [OF m D S A ga1 io1 st1, of cab] eab(1)
  obtain fs2 dataA where c2: "SwitchToContext lib m nameA fs1 = (None, fs2)"
    and fA: "fs_lookup fs1 (FilePath ctxA) = Some (File dataA)"
    and l2: "fs_lookup fs2 = (fs_lookup fs1)(filepath_Dir A \<mapsto> Dir, A @ ''.tmp'' := None,
              A \<mapsto> File dataA, D \<mapsto> Dir, S @ ''.tmp'' := None, S \<mapsto> File cab)"
    by (auto simp: SetCurrent_def)
  from st1 ga1 c2 ne S have p2: "SwitchToPrevious lib m fs1 = (None, fs2)"
    by (simp add: SwitchToPrevious_def State_SwitchToPrevious_def)
  from l2 have "fs_lookup fs2 S = Some (File cab)" by simp
  from LoadState_file [OF this eab(2)]
  have st2: "LoadState lib S fs2 = Inr \<lparr>Current = nameA, Previous = nameB\<rparr>" .
  from same [of xa] fa fA have "fs_lookup fs (FilePath ctxA) = Some (File dataA)" by simp
  with l2 d have a2: "fs_lookup fs2 A = fs_lookup fs (FilePath ctxA)" by simp
  from p1 st1 a1 p2 st2 a2
  show "\<exists>fs1 fs2.
            SwitchToPrevious lib m fs = (None, fs1) \<and>
            LoadState lib S fs1 = Inr \<lparr>Current = nameB, Previous = nameA\<rparr> \<and>
            fs_lookup fs1 A = fs_lookup fs (FilePath ctxB) \<and>
            SwitchToPrevious lib m fs1 = (None, fs2) \<and>
            LoadState lib S fs2 = Inr \<lparr>Current = nameA, Previous = nameB\<rparr> \<and>
            fs_lookup fs2 A = fs_lookup fs (FilePath ctxA)"
    by - (rule exI [of _ fs1], rule exI [of _ fs2], simp)
next
  show "\<forall>s. Current s \<noteq> [] \<and> Previous s \<noteq> [] \<longrightarrow>
            State_SwitchToPrevious (snd (State_SwitchToPrevious s)) = (True, s)"
    by (simp add: State_SwitchToPrevious_def)
qed

text \<open>
  Claim C1 says that on the state value the double swap is the identity for every state
  with a non-empty previous. With an empty current (the state after an unset) the first
  call moves the empty name into previous, so the second call finds no previous, returns
  false and changes nothing.
\<close>

theorem State_SwitchToPrevious_twice_counterexample:
  "Previous \<lparr>Current = [], Previous = ''work''\<rparr> \<noteq> [] \<and>
   State_SwitchToPrevious \<lparr>Current = [], Previous = ''work''\<rparr>
     = (True, \<lparr>Current = ''work'', Previous = []\<rparr>) \<and>
   State_SwitchToPrevious (snd (State_SwitchToPrevious \<lparr>Current = [], Previous = ''work''\<rparr>))
     = (False, \<lparr>Current = ''work'', Previous = []\<rparr>) \<and>
   snd (State_SwitchToPrevious (snd (State_SwitchToPrevious \<lparr>Current = [], Previous = ''work''\<rparr>)))
     \<noteq> \<lparr>Current = [], Previous = ''work''\<rparr>"
  by (simp add: State_SwitchToPrevious_def)

text \<open>
  On the example installation (current \<open>work\<close>, previous \<open>home\<close>) both calls succeed;
  the state file reads \<open>home\<close>, \<open>work\<close> after the first and \<open>work\<close>, \<open>home\<close>
  after the second.
\<close>

theorem SwitchToPrevious_twice_witness:
  "fst (SwitchToPrevious sample_json example_manager example_fs) = None \<and>
   LoadState sample_json ''/home/u/.config/opencode/settings/.occtx-state.json''
       (snd (SwitchToPrevious sample_json example_manager example_fs))
     = Inr \<lparr>Current = ''home'', Previous = ''work''\<rparr> \<and>
   fst (SwitchToPrevious sample_json example_manager
          (snd (SwitchToPrevious sample_json example_manager example_fs))) = None \<and>
   LoadState sample_json ''/home/u/.config/opencode/settings/.occtx-state.json''
       (snd (SwitchToPrevious sample_json example_manager
               (snd (SwitchToPrevious sample_json example_manager example_fs))))
     = Inr \<lparr>Current = ''work'', Previous = ''home''\<rparr>"
proof -
  let ?S = "''/home/u/.config/opencode/settings/.occtx-state.json''"
  let ?A = "GetActiveConfigPath (paths example_manager) (useProject example_manager)"
  let ?D = "GetContextsDir (paths example_manager) (useProject example_manager)"
  have S: "?S = GetStateFilePath (paths example_manager) (useProject example_manager)"
    by code_simp
  have st: "LoadState sample_json ?S example_fs = Inr \<lparr>Current = ''work'', Previous = ''home''\<rparr>"
    by code_simp
  have ga: "GetContext sample_json example_manager ''work'' example_fs =
      Inr \<lparr>Name = ''work'', Data = Some [(''theme'', ''dark'')],
           FilePath = ''/home/u/.config/opencode/settings/work.json''\<rparr>"
    by code_simp
  have gb: "GetContext sample_json example_manager ''home'' example_fs =
      Inr \<lparr>Name = ''home'', Data = Some [(''theme'', ''light'')],
           FilePath = ''/home/u/.config/opencode/settings/home.json''\<rparr>"
    by code_simp
  have "fs_lookup example_fs (filepath_Dir ?A) = Some Dir" "fs_lookup example_fs ?D = Some Dir"
    "fs_lookup example_fs (?A @ ''.tmp'') = None" "fs_lookup example_fs (?S @ ''.tmp'') = None"
    "fs_lookup example_fs ?A = Some (File (sample_compact [(''theme'', ''dark'')]))"
    by code_simp+
  then have io: "\<forall>c. fs_lookup example_fs (filepath_Dir ?A) \<noteq> Some (File c)"
    "fs_lookup example_fs (?A @ ''.tmp'') \<noteq> Some Dir" "fs_lookup example_fs ?A \<noteq> Some Dir"
    "\<forall>c. fs_lookup example_fs ?D \<noteq> Some (File c)" "fs_lookup example_fs (?S @ ''.tmp'') \<noteq> Some Dir"
    by simp_all
  have e: "MarshalIndent_State sample_json \<lparr>Current = ''home'', Previous = ''work''\<rparr>
             = Some (sample_indent [(''current'', ''home''), (''previous'', ''work'')])"
    "Unmarshal_State sample_json (sample_indent [(''current'', ''home''), (''previous'', ''work'')])
             = Some \<lparr>Current = ''home'', Previous = ''work''\<rparr>"
    "MarshalIndent_State sample_json \<lparr>Current = ''work'', Previous = ''home''\<rparr>
             = Some (sample_indent [(''current'', ''work''), (''previous'', ''home'')])"
    "Unmarshal_State sample_json (sample_indent [(''current'', ''work''), (''previous'', ''home'')])
             = Some \<lparr>Current = ''work'', Previous = ''home''\<rparr>"
    by code_simp+
  from SwitchToPrevious_twice [OF example_manager_def refl S refl st ga gb io e]
  obtain fs1 fs2 where
    "SwitchToPrevious sample_json example_manager example_fs = (None, fs1)"
    "LoadState sample_json ?S fs1 = Inr \<lparr>Current = ''home'', Previous = ''work''\<rparr>"
    "SwitchToPrevious sample_json example_manager fs1 = (None, fs2)"
    "LoadState sample_json ?S fs2 = Inr \<lparr>Current = ''work'', Previous = ''home''\<rparr>"
    by blast
  then show ?thesis by simp
qed

section \<open>Removing the comment header\<close>

lemma Split_nl_not_Nil: "Split_nl s \<noteq> []"
  by (induction s) (auto split: list.splits)

lemma Split_nl_line:
  "nl \<notin> set l \<Longrightarrow> Split_nl (l @ nl # rest) = l # Split_nl rest"
  by (induction l) auto

lemma Join_nl_Cons: "ls \<noteq> [] \<Longrightarrow> Join_nl (l # ls) = l @ nl # Join_nl ls"
  by (cases ls) auto

lemma Join_nl_Split_nl: "Join_nl (Split_nl s) = s"
proof (induction s)
  case Nil
  show ?case by simp
next
  case (Cons c s)
  obtain l ls where sp: "Split_nl s = l # ls"
    using Split_nl_not_Nil [of s] by (cases "Split_nl s") auto
  show ?case
  proof (cases "c = nl")
    case True
    with Cons sp show ?thesis by (simp add: Join_nl_Cons)
  next
    case False
    with Cons sp show ?thesis by (cases ls) auto
  qed
qed

lemma space_rune_no_slash: "w \<in> set space_runes \<Longrightarrow> CHR ''/'' \<notin> set w"
  by (auto simp: space_runes_def)

lemma TrimLeft_space_slash: "TrimLeft_space (CHR ''/'' # r) = CHR ''/'' # r"
proof -
  have "leading_space (CHR ''/'' # r) = 0"
    by (simp add: leading_space_def space_runes_def)
  then show ?thesis by (simp add: TrimLeft_space.simps)
qed

lemma suffix_Cons_notin: "suffix w (a # r) \<Longrightarrow> a \<notin> set w \<Longrightarrow> suffix w r"
  by (auto simp: suffix_Cons)

lemma TrimRight_space_comment:
  "prefix ''//'' s \<Longrightarrow> prefix ''//'' (TrimRight_space s)"
proof (induction s rule: TrimRight_space.induct)
  case (1 s)
  show ?case
  proof (cases "trailing_space s = 0")
    case True
    with "1.prems" show ?thesis by (simp add: TrimRight_space.simps)
  next
    case False
    then obtain w where w: "w \<in> set space_runes" "suffix w s" "trailing_space s = length w"
      by (auto simp: trailing_space_def find_Some_iff in_set_conv_nth split: option.splits)
    from "1.prems" obtain r where s: "s = CHR ''/'' # CHR ''/'' # r"
      by (auto simp: prefix_def)
    from w(2) s space_rune_no_slash [OF w(1)] have "suffix w r"
      by (auto dest!: suffix_Cons_notin)
    then have "length w \<le> length r" by (rule suffix_length_le)
    with s w(3) have "take (length s - trailing_space s) s
        = CHR ''/'' # CHR ''/'' # take (length r - length w) r"
      by (simp add: Suc_diff_le)
    then have "prefix ''//'' (take (length s - trailing_space s) s)" by simp
    from "1.IH" [OF False this] False show ?thesis
      by (simp add: TrimRight_space.simps [of s])
  qed
qed

lemma comment_line: "HasPrefix (TrimSpace (''//'' @ r)) ''//''"
  using TrimRight_space_comment [of "''//'' @ r"]
  by (simp add: HasPrefix_def TrimSpace_def TrimLeft_space_slash)

lemma strip_comment_header:
  assumes "nl \<notin> set name" and "nl \<notin> set now"
    and "\<forall>line \<in> set (Split_nl body). \<not> HasPrefix (TrimSpace line) ''//''"
  shows "strip_comment_lines (comment_header name FormatJSONC now @ body) = body"
proof -
  let ?h1 = "''// opencode context: '' @ name"
  let ?h2 = "''// Format: JSONC''"
  let ?h3 = "''// Created: '' @ now"
  have h: "comment_header name FormatJSONC now @ body
             = ?h1 @ nl # ?h2 @ nl # ?h3 @ nl # body"
    by (simp add: comment_header_def DisplayName_def FormatJSON_def FormatJSONC_def)
  have n: "nl \<notin> set ?h1" "nl \<notin> set ?h2" "nl \<notin> set ?h3"
    using assms(1,2) by (simp_all add: nl_def)
  have sp: "Split_nl (comment_header name FormatJSONC now @ body)
              = ?h1 # ?h2 # ?h3 # Split_nl body"
    unfolding h
    by (simp only: Split_nl_line [OF n(1)] Split_nl_line [OF n(2)] Split_nl_line [OF n(3)])
  have c: "HasPrefix (TrimSpace ?h1) ''//''" "HasPrefix (TrimSpace ?h2) ''//''"
    "HasPrefix (TrimSpace ?h3) ''//''"
    using comment_line [of "'' opencode context: '' @ name"] comment_line [of "'' Format: JSONC''"]
      comment_line [of "'' Created: '' @ now"]
    by simp_all
  from assms(3) have k: "filter (\<lambda>line. \<not> HasPrefix (TrimSpace line) ''//'') (Split_nl body)
      = Split_nl body"
    by (simp add: filter_id_conv)
  show ?thesis
    unfolding strip_comment_lines_def sp
    using c k by (simp add: Join_nl_Split_nl)
qed

section \<open>Creating a JSONC context and reading it back\<close>

lemma MkdirAll_each_File:
  "MkdirAll_each dirs fs = (r, fs') \<Longrightarrow>
     fs_lookup fs' p = Some (File c) \<longleftrightarrow> fs_lookup fs p = Some (File c)"
proof (induction dirs arbitrary: fs)
  case Nil
  then show ?case by simp
next
  case (Cons d dirs)
  obtain r1 fs1 where m: "os_MkdirAll d fs = (r1, fs1)"
    by (cases "os_MkdirAll d fs")
  then have f: "fs_lookup fs1 p = Some (File c) \<longleftrightarrow> fs_lookup fs p = Some (File c)"
    by (auto simp: os_MkdirAll_def split: option.splits node.splits if_splits)
  show ?case
  proof (cases r1)
    case None
    with Cons.prems m have "MkdirAll_each dirs fs1 = (r, fs')" by simp
    from Cons.IH [OF this] f show ?thesis by simp
  next
    case (Some e)
    with Cons.prems m f show ?thesis by simp
  qed
qed

lemma EnsureDirectories_File:
  "EnsureDirectories p up fs = (r, fs') \<Longrightarrow>
     fs_lookup fs' q = Some (File c) \<longleftrightarrow> fs_lookup fs q = Some (File c)"
  unfolding EnsureDirectories_def Let_def by (rule MkdirAll_each_File)

text \<open>
  When neither the name nor the time stamp contains a newline, the three header lines are
  exactly the lines that the comment removal drops: a JSONC context created from the
  document \<open>D\<close> of the active configuration reads back as \<open>D\<close>, provided the
  pretty-printed text of \<open>D\<close> has no line that looks like a comment and decodes to
  \<open>D\<close> again (as the output of \<open>json.MarshalIndent\<close> does).
\<close>

lemma CreateContext_JSONC_then_GetContext:
  assumes ok: "CreateContextWithFormat lib m name FormatJSONC now fs = (None, fs')"
    and nonl: "nl \<notin> set name" "nl \<notin> set now"
    and src: "fs_lookup fs (GetActiveConfigPath (paths m) (useProject m)) = Some (File content)"
      "Unmarshal_object lib content = Some D"
    and enc: "MarshalIndent_object lib D = Some body"
    and clean: "\<forall>line \<in> set (Split_nl body). \<not> HasPrefix (TrimSpace line) ''//''"
    and dec: "Unmarshal_object lib body = Some D"
  shows "GetContext lib m name fs' =
           Inr \<lparr>Name = name, Data = Some D,
                FilePath = filepath_Join (GetContextsDir (paths m) (useProject m))
                             (name @ ''.jsonc'')\<rparr>"
proof -
  let ?dir = "GetContextsDir (paths m) (useProject m)"
  let ?cp = "filepath_Join ?dir (name @ ''.jsonc'')"
  let ?jp = "filepath_Join ?dir (name @ ''.json'')"
  have ext: "FileExtension FormatJSONC = ''.jsonc''"
    by (simp add: FileExtension_def FormatJSON_def FormatJSONC_def)
  from CreateContextWithFormat_ok [OF ok refl] ext
  obtain content' jsonData body' fs1 fs2 where
    v: "validateContextName name = None"
    and e: "EnsureDirectories (paths m) (useProject m) fs = (None, fs1)"
    and x: "\<not> os_Stat fs1 ?jp"
    and rd: "os_ReadFile fs1 (GetActiveConfigPath (paths m) (useProject m)) = Inr content'"
    and um: "Unmarshal_object lib content' = Some jsonData"
    and mi: "MarshalIndent_object lib jsonData = Some body'"
    and w: "os_WriteFile (?cp @ ''.tmp'') (comment_header name FormatJSONC now @ body') fs1
              = (None, fs2)"
    and r: "os_Rename (?cp @ ''.tmp'') ?cp fs2 = (None, fs')"
    by auto
  from EnsureDirectories_File [OF e] src(1)
  have "fs_lookup fs1 (GetActiveConfigPath (paths m) (useProject m)) = Some (File content)"
    by simp
  with rd have "content' = content" by (simp add: os_ReadFile_def)
  with um src(2) have "jsonData = D" by simp
  with mi enc have b: "body' = body" by simp
  have ne: "?jp \<noteq> ?cp" "?jp \<noteq> ?cp @ ''.tmp''"
  proof -
    have "last ?jp \<noteq> last ?cp" "last ?jp \<noteq> last (?cp @ ''.tmp'')"
      by (simp_all add: last_filepath_Join)
    then show "?jp \<noteq> ?cp" "?jp \<noteq> ?cp @ ''.tmp''" by metis+
  qed
  from write_then_rename [OF w r] b ne x
  have l: "fs_lookup fs' ?jp = None"
    "fs_lookup fs' ?cp = Some (File (comment_header name FormatJSONC now @ body))"
    by (simp_all add: os_Stat_def)
  from GetContext_jsonc [where fs = fs' and lib = lib and m = m, OF v] l
    strip_comment_header [OF nonl clean] dec
  show ?thesis by simp
qed

lemma CreateContext_JSONC_then_GetContext_example:
  "GetContext sample_json example_manager ''backup''
     (snd (CreateContextWithFormat sample_json example_manager ''backup'' FormatJSONC
             ''2025-01-01 00:00:00'' example_fs))
     = Inr \<lparr>Name = ''backup'', Data = Some [(''theme'', ''dark'')],
            FilePath = ''/home/u/.config/opencode/settings/backup.jsonc''\<rparr>"
  by code_simp

text \<open>
  Claim C7 (JSONC round trip for every valid name). \<open>validateContextName\<close> accepts a
  name with a newline in it. For the name \<open>a\<close>, newline, \<open>b\<close> the create succeeds, but
  the first header line ends after \<open>a\<close> and the next line is \<open>b\<close>, which is not a
  comment: the comment removal leaves \<open>b\<close> in front of the document, and \<open>GetContext\<close>
  fails with \<open>InvalidContent\<close> instead of returning the document.
\<close>

theorem CreateContext_JSONC_newline_name:
  "validateContextName (''a'' @ [nl] @ ''b'') = None \<and>
   fst (CreateContextWithFormat sample_json example_manager (''a'' @ [nl] @ ''b'') FormatJSONC
          ''2025-01-01 00:00:00'' example_fs) = None \<and>
   strip_comment_lines
      (comment_header (''a'' @ [nl] @ ''b'') FormatJSONC ''2025-01-01 00:00:00''
         @ sample_indent [(''theme'', ''dark'')])
     = ''b'' @ [nl] @ sample_indent [(''theme'', ''dark'')] \<and>
   GetContext sample_json example_manager (''a'' @ [nl] @ ''b'')
     (snd (CreateContextWithFormat sample_json example_manager (''a'' @ [nl] @ ''b'') FormatJSONC
             ''2025-01-01 00:00:00'' example_fs))
     = Inl InvalidContent"
  by code_simp

end
